theory Spec2Isabelle
  imports Main "HOL-Library.Signed_Division"
begin

section \<open>The SSM command runner of the provider (package awstools)\<close>

text \<open>
  The Go file sends an SSM command to a set of EC2 instances: it waits until the targets
  are online, sends the command, waits for the invocations, prints the output stored in
  S3 and reads the command back. The model below follows that file function by function.

  Conventions of the embedding:
  \<^item> a Go \<open>string\<close> is a byte sequence, here \<open>string\<close> (a list of 8-bit characters);
  \<^item> a Go pointer \<open>*T\<close> is \<open>T option\<close>, \<open>None\<close> being \<open>nil\<close>; dereferencing \<open>nil\<close>
    is the outcome \<open>Inl NilDereference\<close>;
  \<^item> a Go \<open>error\<close> is identified with its message; a nil-able error is \<open>error option\<close>;
  \<^item> Go's \<open>int\<close> is \<open>int\<close>: the only arithmetic is a division by ten, increments
    bounded by that quotient and counters bounded by slice lengths, none of which wraps;
    \<open>/\<close> truncates towards zero and is written \<open>sdiv\<close>;
  \<^item> logging, sleeping and the calls to the AWS services are recorded, in order, in a
    trace of events that every function takes and returns extended.
\<close>

subsection \<open>Package constants\<close>

definition ec2FilterInstanceId :: string where
  "ec2FilterInstanceId = ''instance-id''"

definition ec2FilterInstanceStateName :: string where
  "ec2FilterInstanceStateName = ''instance-state-name''"

definition ssmTargetInstanceIds :: string where
  "ssmTargetInstanceIds = ''InstanceIds''"

definition sendTimeout :: int where
  "sendTimeout = 600"

definition waitTimeout :: int where
  "waitTimeout = 600"

definition sleepTime :: int where
  "sleepTime = 10"

definition maxLogMsgSize :: nat where
  "maxLogMsgSize = 65536"

text \<open>The SDK's \<open>ssmtypes.PingStatusOnline\<close>, a constant of the string type \<open>PingStatus\<close>.\<close>

definition PingStatusOnline :: string where
  "PingStatusOnline = ''Online''"

subsection \<open>Data of the AWS SDK that the code reads\<close>

type_synonym error = string

datatype panic = NilDereference

record Filter =
  filter_Name :: "string option"
  filter_Values :: "string list"

record InstanceInformationStringFilter =
  isf_Key :: "string option"
  isf_Values :: "string list"

record Target =
  target_Key :: "string option"
  target_Values :: "string list"

record Instance =
  instance_InstanceId :: "string option"

record Reservation =
  Instances :: "Instance list"

record InstanceInformation =
  info_InstanceId :: "string option"
  PingStatus :: string

record CommandInvocation =
  inv_InstanceId :: "string option"
  inv_Status :: string

record Command =
  CommandId :: "string option"
  cmd_DocumentName :: "string option"
  cmd_Status :: string

text \<open>The zero value \<open>ssmtypes.Command{}\<close>: nil pointers and empty strings.\<close>

definition Command_zero :: Command where
  "Command_zero = \<lparr>CommandId = None, cmd_DocumentName = None, cmd_Status = []\<rparr>"

record SendCommandInput =
  sc_Targets :: "Target list"
  sc_DocumentName :: "string option"
  sc_Parameters :: "string \<rightharpoonup> string list"
  sc_Comment :: "string option"
  sc_TimeoutSeconds :: "int option"
  sc_OutputS3BucketName :: "string option"
  sc_OutputS3KeyPrefix :: "string option"

record SendCommandOutput =
  out_Command :: "Command option"

record Object =
  obj_Key :: "string option"

text \<open>
  \<open>get_Body\<close> is what \<open>io.ReadAll\<close> gives on the body of a fetched object: an error or
  the bytes.
\<close>

record GetObjectOutput =
  get_Body :: "error + string"

subsection \<open>Events and service clients\<close>

datatype event =
    Info string
  | LogError string
  | Sleep int
  | DescribeInstances_call "Filter list"
  | DescribeInstanceInformation_call "InstanceInformationStringFilter list"
  | ListCommandInvocations_call string
  | SendCommand_call SendCommandInput
  | ListCommands_call string
  | GetBucketLocation_call "string option"
  | LoadDefaultConfig_call
  | ListObjectsV2_call string "string option" int string
  | GetObject_call string "string option" "string option"

text \<open>
  The three clients of \<open>AwsClients\<close>, as the answers of their operations. The two
  operations that are polled take the number of the poll (the loop counter) first, so
  that the answer can change from one attempt to the next. \<open>LoadDefaultConfig\<close> stands
  for the SDK's configuration loader, and the S3 operations that run on the client of
  the bucket's region take that region first.
\<close>

record AwsClients =
  DescribeInstances :: "nat \<Rightarrow> Filter list \<Rightarrow> error + Reservation list"
  DescribeInstanceInformation ::
    "nat \<Rightarrow> InstanceInformationStringFilter list \<Rightarrow> error + InstanceInformation list"
  ListCommandInvocations :: "nat \<Rightarrow> string \<Rightarrow> error + CommandInvocation list"
  SendCommand :: "SendCommandInput \<Rightarrow> error + SendCommandOutput"
  ListCommands :: "string \<Rightarrow> error + Command list"
  GetBucketLocation :: "string option \<Rightarrow> error + string"
  LoadDefaultConfig :: "error + unit"
  ListObjectsV2 :: "string \<Rightarrow> string option \<Rightarrow> int \<Rightarrow> string \<Rightarrow> error + Object list"
  GetObject :: "string \<Rightarrow> string option \<Rightarrow> string option \<Rightarrow> error + GetObjectOutput"

text \<open>
  How a loop body ends: by a \<open>return\<close> of the enclosing function, or by falling
  through to the next iteration with the value of its local counter.
\<close>

datatype ('r, 'a) flow = Returns 'r | Continues 'a

subsection \<open>Formatting helpers of the Go library\<close>

text \<open>\<open>%d\<close> of \<open>fmt.Sprintf\<close>: the decimal digits, with a minus sign below zero.\<close>

fun digits :: "nat \<Rightarrow> string" where
  "digits n = (if n < 10 then [char_of (48 + n)]
               else digits (n div 10) @ [char_of (48 + n mod 10)])"

declare digits.simps [simp del]

definition Sprintf_d :: "int \<Rightarrow> string" where
  "Sprintf_d k = (if k < 0 then CHR ''-'' # digits (nat (- k)) else digits (nat k))"

text \<open>
  \<open>strings.ToLower\<close> on ASCII text: the letters A to Z move to a to z, every other
  byte stays. The code applies it to the three status literals of the failing branch only.
\<close>

definition lower_byte :: "char \<Rightarrow> char" where
  "lower_byte c = (let n = (of_char c :: nat) in
     if 65 \<le> n \<and> n \<le> 90 then char_of (n + 32) else c)"

definition ToLower :: "string \<Rightarrow> string" where
  "ToLower s = map lower_byte s"

subsection \<open>Slicing the output into log messages\<close>

text \<open>
  \<open>msg[lo:hi]\<close>. Go panics unless \<open>lo \<le> hi \<le> len(msg)\<close>; lemma \<open>slice_bounds\<close> below
  shows that the loop of \<open>printCommandOutput\<close> stays inside these bounds.
\<close>

definition slice :: "string \<Rightarrow> nat \<Rightarrow> nat \<Rightarrow> string" where
  "slice msg lo hi = take (hi - lo) (drop lo msg)"

text \<open>
  The messages that lines 192 to 196 log for the content \<open>msg\<close>, in order: \<open>n\<close> slices
  of \<open>maxLogMsgSize\<close> bytes from the loop, then the rest \<open>msg[n*maxLogMsgSize:]\<close>.
\<close>

definition logPieces :: "string \<Rightarrow> string list" where
  "logPieces msg = (let n = length msg div maxLogMsgSize in
     map (\<lambda>i. slice msg (i * maxLogMsgSize) ((i + 1) * maxLogMsgSize)) [0..<n]
       @ [drop (n * maxLogMsgSize) msg])"

text \<open>The chunk count that the specification states: the ceiling of \<open>L / C\<close>.\<close>

definition spec_chunk_count :: "nat \<Rightarrow> nat" where
  "spec_chunk_count L = (L + maxLogMsgSize - 1) div maxLogMsgSize"

subsection \<open>Waiting for the target instances\<close>

text \<open>Lines 62 to 66 and 68 to 74: the two counting loops.\<close>

definition ec2InstanceCount :: "Reservation list \<Rightarrow> int" where
  "ec2InstanceCount reservations =
     foldl (\<lambda>n reservation. n + int (length (Instances reservation))) 0 reservations"

definition onlineInstanceCount :: "InstanceInformation list \<Rightarrow> int" where
  "onlineInstanceCount infos =
     foldl (\<lambda>n inst. if PingStatus inst = PingStatusOnline then n + 1 else n) 0 infos"

text \<open>One iteration of the loop of \<open>waitForTargetInstances\<close>, lines 43 to 83.\<close>

definition waitForTargetInstances_body ::
  "AwsClients \<Rightarrow> Filter list \<Rightarrow> InstanceInformationStringFilter list \<Rightarrow> nat \<Rightarrow> event list
     \<Rightarrow> (error option, unit) flow \<times> event list" where
  "waitForTargetInstances_body clients ec2Filters ssmFilters i tr =
     (case DescribeInstances clients i ec2Filters of
        Inl err \<Rightarrow> (Returns (Some err), tr @ [DescribeInstances_call ec2Filters, LogError err])
      | Inr reservations \<Rightarrow>
          (case DescribeInstanceInformation clients i ssmFilters of
             Inl err \<Rightarrow>
               (Returns (Some err),
                tr @ [DescribeInstances_call ec2Filters,
                      DescribeInstanceInformation_call ssmFilters, LogError err])
           | Inr infos \<Rightarrow>
               (let tr2 = tr @ [DescribeInstances_call ec2Filters,
                                DescribeInstanceInformation_call ssmFilters]
                in if length infos > 0 then
                     (let tr3 = tr2 @ [Info (Sprintf_d (onlineInstanceCount infos) @ '' of ''
                                   @ Sprintf_d (ec2InstanceCount reservations)
                                   @ '' target instances are online.'')]
                      in if onlineInstanceCount infos = ec2InstanceCount reservations
                         then (Returns None, tr3)
                         else (Continues (), tr3 @ [Sleep sleepTime]))
                   else (Continues (), tr2 @ [Sleep sleepTime]))))"

function waitForTargetInstances_loop ::
  "AwsClients \<Rightarrow> Filter list \<Rightarrow> InstanceInformationStringFilter list \<Rightarrow> int \<Rightarrow> int \<Rightarrow> event list
     \<Rightarrow> error option \<times> event list" where
  "waitForTargetInstances_loop clients ec2Filters ssmFilters timeout i tr =
     (if i < timeout sdiv sleepTime then
        (case waitForTargetInstances_body clients ec2Filters ssmFilters (nat i) tr of
           (Returns r, tr') \<Rightarrow> (r, tr')
         | (Continues u, tr') \<Rightarrow>
             waitForTargetInstances_loop clients ec2Filters ssmFilters timeout (i + 1) tr')
      else (Some ''target instances are not online'',
            tr @ [LogError ''Target instances are not online.'']))"
  by pat_completeness auto
termination
  by (relation "measure (\<lambda>(clients, ec2Filters, ssmFilters, timeout, i, tr).
        nat (timeout sdiv sleepTime - i))") auto

declare waitForTargetInstances_loop.simps [simp del]

definition waitForTargetInstances ::
  "AwsClients \<Rightarrow> Filter list \<Rightarrow> InstanceInformationStringFilter list \<Rightarrow> int \<Rightarrow> event list
     \<Rightarrow> error option \<times> event list" where
  "waitForTargetInstances clients ec2Filters ssmFilters timeout tr =
     waitForTargetInstances_loop clients ec2Filters ssmFilters timeout 0 tr"

subsection \<open>Waiting for the command invocations\<close>

definition failing :: "string \<Rightarrow> bool" where
  "failing status = (status = ''Cancelled'' \<or> status = ''TimedOut'' \<or> status = ''Failed'')"

text \<open>
  The loop over the invocations, lines 110 to 119: it counts the pending ones and leaves
  the function at the first invocation with a failing status.
\<close>

fun scanInvocations ::
  "string \<Rightarrow> CommandInvocation list \<Rightarrow> int \<Rightarrow> event list
     \<Rightarrow> (panic + (error option, int) flow) \<times> event list" where
  "scanInvocations commandId [] pendingExecutionsCount tr =
     (Inr (Continues pendingExecutionsCount), tr)"
| "scanInvocations commandId (invocation # rest) pendingExecutionsCount tr =
     (if inv_Status invocation = ''Pending'' \<or> inv_Status invocation = ''InProgress'' then
        scanInvocations commandId rest (pendingExecutionsCount + 1) tr
      else if failing (inv_Status invocation) then
        (case inv_InstanceId invocation of
           None \<Rightarrow> (Inl NilDereference, tr)
         | Some instanceId \<Rightarrow>
             (Inr (Returns (Some (''command invocation '' @ ToLower (inv_Status invocation)
                      @ '' on '' @ instanceId @ '' instance''))),
              tr @ [Info (''Command '' @ commandId @ '' invocation '' @ inv_Status invocation
                      @ '' on instance '' @ instanceId @ ''.'')]))
      else scanInvocations commandId rest pendingExecutionsCount tr)"

text \<open>One iteration of the loop of \<open>waitForCommandInvocations\<close>, lines 94 to 125.\<close>

definition waitForCommandInvocations_body ::
  "AwsClients \<Rightarrow> string \<Rightarrow> nat \<Rightarrow> event list
     \<Rightarrow> (panic + (error option, unit) flow) \<times> event list" where
  "waitForCommandInvocations_body clients commandId i tr =
     (case ListCommandInvocations clients i commandId of
        Inl err \<Rightarrow>
          (Inr (Returns (Some err)), tr @ [ListCommandInvocations_call commandId, LogError err])
      | Inr invocations \<Rightarrow>
          (let tr1 = tr @ [ListCommandInvocations_call commandId]
           in if length invocations = 0 then (Inr (Continues ()), tr1 @ [Sleep sleepTime])
              else
                (case scanInvocations commandId invocations 0 tr1 of
                   (Inl p, tr2) \<Rightarrow> (Inl p, tr2)
                 | (Inr (Returns r), tr2) \<Rightarrow> (Inr (Returns r), tr2)
                 | (Inr (Continues pendingExecutionsCount), tr2) \<Rightarrow>
                     if pendingExecutionsCount = 0 then (Inr (Returns None), tr2)
                     else (Inr (Continues ()), tr2 @ [Sleep sleepTime]))))"

function waitForCommandInvocations_loop ::
  "AwsClients \<Rightarrow> string \<Rightarrow> int \<Rightarrow> int \<Rightarrow> event list \<Rightarrow> (panic + error option) \<times> event list" where
  "waitForCommandInvocations_loop clients commandId timeout i tr =
     (if i < timeout sdiv sleepTime then
        (case waitForCommandInvocations_body clients commandId (nat i) tr of
           (Inl p, tr') \<Rightarrow> (Inl p, tr')
         | (Inr (Returns r), tr') \<Rightarrow> (Inr r, tr')
         | (Inr (Continues u), tr') \<Rightarrow>
             waitForCommandInvocations_loop clients commandId timeout (i + 1) tr')
      else (Inr (Some ''command invocations timed out''),
            tr @ [LogError ''Command invocations timed out.'']))"
  by pat_completeness auto
termination
  by (relation "measure (\<lambda>(clients, commandId, timeout, i, tr).
        nat (timeout sdiv sleepTime - i))") auto

declare waitForCommandInvocations_loop.simps [simp del]

text \<open>The timeout is a pointer that the loop condition dereferences.\<close>

definition waitForCommandInvocations ::
  "AwsClients \<Rightarrow> string \<Rightarrow> int option \<Rightarrow> event list \<Rightarrow> (panic + error option) \<times> event list" where
  "waitForCommandInvocations clients commandId timeout tr =
     (case timeout of
        None \<Rightarrow> (Inl NilDereference, tr)
      | Some t \<Rightarrow> waitForCommandInvocations_loop clients commandId t 0 tr)"

subsection \<open>Printing the command output\<close>

text \<open>Lines 160 to 163: the prefix of the keys that are listed.\<close>

definition keyPrefix :: "string option \<Rightarrow> string \<Rightarrow> string" where
  "keyPrefix prefix commandId =
     (case prefix of None \<Rightarrow> commandId | Some p \<Rightarrow> p @ ''/'' @ commandId)"

text \<open>
  The loop over the listed objects, lines 178 to 199. A failed fetch is logged and
  skipped, a failed read is skipped silently, and the header line dereferences the key.
\<close>

fun printObjects ::
  "AwsClients \<Rightarrow> string \<Rightarrow> string option \<Rightarrow> Object list \<Rightarrow> event list
     \<Rightarrow> (panic + unit) \<times> event list" where
  "printObjects clients region s3Bucket [] tr = (Inr (), tr)"
| "printObjects clients region s3Bucket (key # rest) tr =
     (let tr1 = tr @ [GetObject_call region s3Bucket (obj_Key key)]
      in case GetObject clients region s3Bucket (obj_Key key) of
           Inl err \<Rightarrow> printObjects clients region s3Bucket rest (tr1 @ [LogError err])
         | Inr object \<Rightarrow>
             (case get_Body object of
                Inl err \<Rightarrow> printObjects clients region s3Bucket rest tr1
              | Inr msg \<Rightarrow>
                  (case obj_Key key of
                     None \<Rightarrow> (Inl NilDereference, tr1)
                   | Some k \<Rightarrow>
                       printObjects clients region s3Bucket rest
                         (tr1 @ [Info (CHR 0x0A # ''*** '' @ k @ '' ***'')]
                              @ map Info (logPieces msg)))))"

definition printCommandOutput ::
  "AwsClients \<Rightarrow> string option \<Rightarrow> string \<Rightarrow> string option \<Rightarrow> event list
     \<Rightarrow> (panic + error option) \<times> event list" where
  "printCommandOutput clients prefix commandId s3Bucket tr =
     (if s3Bucket = None \<or> s3Bucket = Some [] then
        (Inr None, tr @ [Info ''The output S3 bucket is not specified for ssm_command resource.''])
      else
        (case GetBucketLocation clients s3Bucket of
           Inl err \<Rightarrow> (Inr (Some err), tr @ [GetBucketLocation_call s3Bucket, LogError err])
         | Inr location \<Rightarrow>
             (case LoadDefaultConfig clients of
                Inl err \<Rightarrow>
                  (Inr (Some err),
                   tr @ [GetBucketLocation_call s3Bucket, LoadDefaultConfig_call, LogError err])
              | Inr cfg \<Rightarrow>
                  (let tr2 = tr @ [GetBucketLocation_call s3Bucket, LoadDefaultConfig_call,
                                   ListObjectsV2_call location s3Bucket 1000
                                     (keyPrefix prefix commandId)]
                   in case ListObjectsV2 clients location s3Bucket 1000
                             (keyPrefix prefix commandId) of
                        Inl err \<Rightarrow> (Inr (Some err), tr2 @ [LogError err])
                      | Inr contents \<Rightarrow>
                          (case printObjects clients location s3Bucket contents tr2 of
                             (Inl p, tr3) \<Rightarrow> (Inl p, tr3)
                           | (Inr u, tr3) \<Rightarrow> (Inr None, tr3))))))"

subsection \<open>Reading the command back\<close>

text \<open>Go returns a pair: the command, zero with an error, and the nil-able error.\<close>

definition GetCommand ::
  "AwsClients \<Rightarrow> string \<Rightarrow> event list \<Rightarrow> (Command \<times> error option) \<times> event list" where
  "GetCommand clients commandId tr =
     (case ListCommands clients commandId of
        Inl err \<Rightarrow> ((Command_zero, Some err), tr @ [ListCommands_call commandId])
      | Inr commands \<Rightarrow>
          if length commands = 0 then ((Command_zero, None), tr @ [ListCommands_call commandId])
          else ((commands ! 0, None), tr @ [ListCommands_call commandId]))"

subsection \<open>Building the filters and running the command\<close>

text \<open>
  \<open>strings.EqualFold\<close> of the Go library, for a second argument of ASCII bytes, which is
  how line 215 calls it. Two ASCII bytes match when they are equal or the two cases of one
  letter. A rune of the first string beyond ASCII matches an ASCII byte only when it lies
  in that letter's orbit of simple case folding: U+017F (bytes C5 BF) for s, and U+212A
  (bytes E2 84 AA) for k.
\<close>

definition fold_ascii :: "char \<Rightarrow> char \<Rightarrow> bool" where
  "fold_ascii c d = (let a = (of_char c :: nat); b = (of_char d :: nat) in
     a < 128 \<and> b < 128 \<and> (a = b \<or> (65 \<le> min a b \<and> min a b \<le> 90 \<and> max a b = min a b + 32)))"

fun EqualFold :: "string \<Rightarrow> string \<Rightarrow> bool" where
  "EqualFold [] t = (t = [])"
| "EqualFold (c # s) [] = False"
| "EqualFold (c # s) (d # t) =
     (if fold_ascii c d then EqualFold s t
      else
        (case s of
           [] \<Rightarrow> False
         | c2 # s2 \<Rightarrow>
             if c = CHR 0xC5 \<and> c2 = CHR 0xBF \<and> (d = CHR ''s'' \<or> d = CHR ''S'') then EqualFold s2 t
             else
               (case s2 of
                  [] \<Rightarrow> False
                | c3 # s3 \<Rightarrow>
                    if c = CHR 0xE2 \<and> c2 = CHR 0x84 \<and> c3 = CHR 0xAA
                       \<and> (d = CHR ''k'' \<or> d = CHR ''K'')
                    then EqualFold s3 t
                    else False)))"

text \<open>The loop over the targets, lines 213 to 221; the key of a target is dereferenced.\<close>

fun targetFilters ::
  "Target list \<Rightarrow> Filter list \<Rightarrow> InstanceInformationStringFilter list
     \<Rightarrow> panic + Filter list \<times> InstanceInformationStringFilter list" where
  "targetFilters [] ec2Filters ssmFilters = Inr (ec2Filters, ssmFilters)"
| "targetFilters (target # rest) ec2Filters ssmFilters =
     (case target_Key target of
        None \<Rightarrow> Inl NilDereference
      | Some key \<Rightarrow>
          (let ec2FilterName =
                 (if EqualFold key ssmTargetInstanceIds then Some ec2FilterInstanceId
                  else target_Key target)
           in targetFilters rest
                (ec2Filters @ [\<lparr>filter_Name = ec2FilterName, filter_Values = target_Values target\<rparr>])
                (ssmFilters @ [\<lparr>isf_Key = target_Key target, isf_Values = target_Values target\<rparr>])))"

text \<open>Lines 210 to 223: both filter lists, the state filter appended to the first.\<close>

definition RunCommand_filters ::
  "Target list \<Rightarrow> panic + Filter list \<times> InstanceInformationStringFilter list" where
  "RunCommand_filters ssmTargets =
     (case targetFilters ssmTargets [] [] of
        Inl p \<Rightarrow> Inl p
      | Inr (ec2Filters, ssmFilters) \<Rightarrow>
          Inr (ec2Filters @ [\<lparr>filter_Name = Some ec2FilterInstanceStateName,
                               filter_Values = [''pending'', ''running'']\<rparr>],
               ssmFilters))"

definition RunCommand_input ::
  "string option \<Rightarrow> (string \<rightharpoonup> string list) \<Rightarrow> Target list \<Rightarrow> string option \<Rightarrow> string option
     \<Rightarrow> string option \<Rightarrow> SendCommandInput" where
  "RunCommand_input documentName parameters ssmTargets comment s3Bucket s3KeyPrefix =
     \<lparr>sc_Targets = ssmTargets, sc_DocumentName = documentName, sc_Parameters = parameters,
      sc_Comment = comment, sc_TimeoutSeconds = Some sendTimeout,
      sc_OutputS3BucketName = s3Bucket, sc_OutputS3KeyPrefix = s3KeyPrefix\<rparr>"

definition RunCommand ::
  "AwsClients \<Rightarrow> string option \<Rightarrow> (string \<rightharpoonup> string list) \<Rightarrow> Target list \<Rightarrow> int option
     \<Rightarrow> string option \<Rightarrow> string option \<Rightarrow> string option \<Rightarrow> event list
     \<Rightarrow> (panic + Command \<times> error option) \<times> event list" where
  "RunCommand clients documentName parameters ssmTargets executionTimeout comment s3Bucket
       s3KeyPrefix tr =
     (case RunCommand_filters ssmTargets of
        Inl p \<Rightarrow> (Inl p, tr)
      | Inr (ec2Filters, ssmFilters) \<Rightarrow>
          (case waitForTargetInstances clients ec2Filters ssmFilters waitTimeout tr of
             (Some err, tr1) \<Rightarrow> (Inr (Command_zero, Some err), tr1 @ [LogError err])
           | (None, tr1) \<Rightarrow>
               (let input = RunCommand_input documentName parameters ssmTargets comment
                              s3Bucket s3KeyPrefix;
                    tr2 = tr1 @ [SendCommand_call input]
                in case SendCommand clients input of
                     Inl err \<Rightarrow> (Inr (Command_zero, Some err), tr2 @ [LogError err])
                   | Inr output \<Rightarrow>
                       (case out_Command output of
                          None \<Rightarrow> (Inl NilDereference, tr2)
                        | Some command \<Rightarrow>
                            (case CommandId command of
                               None \<Rightarrow> (Inl NilDereference, tr2)
                             | Some commandId \<Rightarrow>
                                 (case waitForCommandInvocations clients commandId
                                         executionTimeout tr2 of
                                    (Inl p, tr3) \<Rightarrow> (Inl p, tr3)
                                  | (Inr err, tr3) \<Rightarrow>
                                      (case printCommandOutput clients s3KeyPrefix commandId
                                              s3Bucket tr3 of
                                         (Inl p, tr4) \<Rightarrow> (Inl p, tr4)
                                       | (Inr printed, tr4) \<Rightarrow>
                                           (case err of
                                              Some e \<Rightarrow>
                                                (Inr (Command_zero, Some e), tr4 @ [LogError e])
                                            | None \<Rightarrow>
                                                (case GetCommand clients commandId tr4 of
                                                   (r, tr5) \<Rightarrow> (Inr r, tr5))))))))))"

subsection \<open>Observing a run\<close>

text \<open>
  A poll attempt of either waiter starts with one query: \<open>DescribeInstances\<close> for the
  target instances, \<open>ListCommandInvocations\<close> for the invocations. \<open>polls\<close> counts
  them in a trace.
\<close>

fun is_poll :: "event \<Rightarrow> bool" where
  "is_poll (DescribeInstances_call f) = True"
| "is_poll (ListCommandInvocations_call c) = True"
| "is_poll e = False"

definition polls :: "event list \<Rightarrow> nat" where
  "polls tr = length (filter is_poll tr)"

text \<open>
  The readiness condition in the words of the specification: the agent inventory has as
  many entries as the compute inventory has instances, and every entry is online. The
  condition of the code is the one in \<open>waitForTargetInstances_body\<close>.
\<close>

definition spec_ready :: "Reservation list \<Rightarrow> InstanceInformation list \<Rightarrow> bool" where
  "spec_ready reservations infos =
     (int (length infos) = ec2InstanceCount reservations
      \<and> list_all (\<lambda>inst. PingStatus inst = PingStatusOnline) infos)"

subsection \<open>Concrete services\<close>

text \<open>
  Services on which the theorems below are instantiated. With \<open>sample_clients\<close> two
  instances run; the agent inventory is empty at the first poll, has one instance without
  connection at the second and both online from the third on. The invocations are not
  listed at the first poll, run at the second, and one has failed at the third. The
  bucket's region cannot be read.
\<close>

definition sample_clients :: AwsClients where
  "sample_clients =
     \<lparr>DescribeInstances = (\<lambda>i filters.
        Inr [\<lparr>Instances = [\<lparr>instance_InstanceId = Some ''i-1''\<rparr>,
                            \<lparr>instance_InstanceId = Some ''i-2''\<rparr>]\<rparr>]),
      DescribeInstanceInformation = (\<lambda>i filters.
        Inr (if i = 0 then []
             else if i = 1 then
               [\<lparr>info_InstanceId = Some ''i-1'', PingStatus = ''Online''\<rparr>,
                \<lparr>info_InstanceId = Some ''i-2'', PingStatus = ''ConnectionLost''\<rparr>]
             else
               [\<lparr>info_InstanceId = Some ''i-1'', PingStatus = ''Online''\<rparr>,
                \<lparr>info_InstanceId = Some ''i-2'', PingStatus = ''Online''\<rparr>])),
      ListCommandInvocations = (\<lambda>i commandId.
        Inr (if i = 0 then []
             else if i = 1 then
               [\<lparr>inv_InstanceId = Some ''i-1'', inv_Status = ''InProgress''\<rparr>,
                \<lparr>inv_InstanceId = Some ''i-2'', inv_Status = ''Pending''\<rparr>]
             else
               [\<lparr>inv_InstanceId = Some ''i-1'', inv_Status = ''Pending''\<rparr>,
                \<lparr>inv_InstanceId = Some ''i-2'', inv_Status = ''Failed''\<rparr>,
                \<lparr>inv_InstanceId = Some ''i-3'', inv_Status = ''TimedOut''\<rparr>])),
      SendCommand = (\<lambda>input.
        Inr \<lparr>out_Command = Some \<lparr>CommandId = Some ''cmd-1'',
                                    cmd_DocumentName = sc_DocumentName input,
                                    cmd_Status = ''Pending''\<rparr>\<rparr>),
      ListCommands = (\<lambda>commandId. Inr []),
      GetBucketLocation = (\<lambda>bucket. Inl ''AccessDenied''),
      LoadDefaultConfig = Inr (),
      ListObjectsV2 = (\<lambda>region bucket maxKeys prefix. Inr []),
      GetObject = (\<lambda>region bucket key. Inl ''NoSuchKey'')\<rparr>"

text \<open>Services that never get ready: no agent has registered, no invocation is listed.\<close>

definition idle_clients :: AwsClients where
  "idle_clients = sample_clients
     \<lparr>DescribeInstanceInformation := (\<lambda>i filters. Inr []),
      ListCommandInvocations := (\<lambda>i commandId. Inr [])\<rparr>"

text \<open>
  Two instances match the targets. One runs and is online; the other is stopped, so the
  state filter keeps it out of the compute inventory, and its agent has lost connection.
\<close>

definition stopped_clients :: AwsClients where
  "stopped_clients = sample_clients
     \<lparr>DescribeInstances := (\<lambda>i filters.
        Inr [\<lparr>Instances = [\<lparr>instance_InstanceId = Some ''i-1''\<rparr>]\<rparr>]),
      DescribeInstanceInformation := (\<lambda>i filters.
        Inr [\<lparr>info_InstanceId = Some ''i-1'', PingStatus = ''Online''\<rparr>,
             \<lparr>info_InstanceId = Some ''i-2'', PingStatus = ''ConnectionLost''\<rparr>])\<rparr>"

section \<open>Properties\<close>

subsection \<open>The pieces of a logged output\<close>

text \<open>The indices of every slice taken by the loop are in range, so no slice panics.\<close>

lemma slice_bounds:
  assumes "i < length msg div maxLogMsgSize"
  shows "i * maxLogMsgSize \<le> (i + 1) * maxLogMsgSize \<and> (i + 1) * maxLogMsgSize \<le> length msg"
proof -
  have "i + 1 \<le> length msg div maxLogMsgSize" using assms by simp
  then have "(i + 1) * maxLogMsgSize \<le> (length msg div maxLogMsgSize) * maxLogMsgSize"
    by (rule mult_le_mono1)
  also have "\<dots> \<le> length msg" by simp
  finally show ?thesis by simp
qed

lemma length_logPieces: "length (logPieces msg) = length msg div maxLogMsgSize + 1"
  by (simp add: logPieces_def Let_def)

lemma logPieces_nth:
  assumes "i < length msg div maxLogMsgSize"
  shows "logPieces msg ! i = slice msg (i * maxLogMsgSize) ((i + 1) * maxLogMsgSize)"
  using assms by (simp add: logPieces_def Let_def nth_append)

lemma length_full_piece:
  assumes "i < length msg div maxLogMsgSize"
  shows "length (logPieces msg ! i) = maxLogMsgSize"
proof -
  have "(i + 1) * maxLogMsgSize \<le> length msg" using slice_bounds [OF assms] by simp
  then show ?thesis by (simp add: logPieces_nth [OF assms] slice_def)
qed

lemma last_logPieces:
  "last (logPieces msg) = drop (length msg div maxLogMsgSize * maxLogMsgSize) msg"
  by (simp add: logPieces_def Let_def)

lemma length_last_piece: "length (last (logPieces msg)) = length msg mod maxLogMsgSize"
  by (simp add: last_logPieces minus_div_mult_eq_mod)

lemma concat_slices:
  "n * C \<le> length msg \<Longrightarrow>
     concat (map (\<lambda>i. slice msg (i * C) ((i + 1) * C)) [0..<n]) = take (n * C) msg"
proof (induction n)
  case 0
  then show ?case by simp
next
  case (Suc n)
  then have "concat (map (\<lambda>i. slice msg (i * C) ((i + 1) * C)) [0..<n]) = take (n * C) msg"
    by simp
  moreover have "slice msg (n * C) ((n + 1) * C) = take C (drop (n * C) msg)"
    by (simp add: slice_def)
  moreover have "take (Suc n * C) msg = take (n * C) msg @ take C (drop (n * C) msg)"
    using take_add [of "n * C" C msg] by (simp add: add.commute)
  ultimately show ?case by simp
qed

lemma concat_logPieces: "concat (logPieces msg) = msg"
proof -
  have "length msg div maxLogMsgSize * maxLogMsgSize \<le> length msg" by simp
  from concat_slices [OF this] show ?thesis by (simp add: logPieces_def Let_def)
qed

lemma ceiling_quotient:
  fixes L C :: nat
  assumes "0 < C" "L mod C \<noteq> 0"
  shows "(L + C - 1) div C = L div C + 1"
proof -
  define r where "r = L mod C"
  have r: "0 < r" "r < C" using assms by (simp_all add: r_def)
  have L: "L = L div C * C + r" by (simp add: r_def)
  have "L + C - 1 = (r - 1) + (L div C + 1) * C"
  proof -
    have "L + C - 1 = (L div C * C + r) + C - 1" using L by simp
    also have "\<dots> = (r - 1) + (L div C + 1) * C" using r by (simp add: algebra_simps)
    finally show ?thesis .
  qed
  then have "(L + C - 1) div C = ((r - 1) + (L div C + 1) * C) div C" by simp
  also have "\<dots> = (L div C + 1) + (r - 1) div C" using assms(1) by (simp only: div_mult_self1)
  also have "(r - 1) div C = 0" using r by simp
  finally show ?thesis by simp
qed

text \<open>
  C2, as the code has it. For a content of length \<open>L\<close> and \<open>C = maxLogMsgSize = 65536\<close>,
  the output is logged in exactly \<open>L div C + 1\<close> pieces: each of the first \<open>L div C\<close>
  has length \<open>C\<close>, the last one has length \<open>L mod C\<close> (it is empty when \<open>L\<close> is a
  multiple of \<open>C\<close>), and the pieces in order make up the content. The count is the
  ceiling of \<open>L / C\<close> whenever \<open>L\<close> is not a multiple of \<open>C\<close>.
\<close>

theorem logPieces_shape:
  "length (logPieces msg) = length msg div maxLogMsgSize + 1
   \<and> maxLogMsgSize = 65536
   \<and> (\<forall>i < length msg div maxLogMsgSize. length (logPieces msg ! i) = maxLogMsgSize)
   \<and> length (last (logPieces msg)) = length msg mod maxLogMsgSize
   \<and> concat (logPieces msg) = msg
   \<and> (length msg mod maxLogMsgSize \<noteq> 0 \<longrightarrow>
        length (logPieces msg) = spec_chunk_count (length msg))"
proof -
  have "length msg mod maxLogMsgSize \<noteq> 0 \<longrightarrow>
          length (logPieces msg) = spec_chunk_count (length msg)"
    using ceiling_quotient [of maxLogMsgSize "length msg"]
    by (simp add: length_logPieces spec_chunk_count_def maxLogMsgSize_def)
  then show ?thesis
    using length_logPieces length_full_piece length_last_piece concat_logPieces
    by (simp add: maxLogMsgSize_def)
qed

theorem logPieces_shape_witness:
  "length (logPieces (replicate 65537 (CHR ''a''))) = 2
   \<and> length (logPieces (replicate 65537 (CHR ''a'')) ! 0) = 65536
   \<and> length (last (logPieces (replicate 65537 (CHR ''a'')))) = 1
   \<and> length (logPieces (replicate 65537 (CHR ''a''))) = spec_chunk_count 65537"
proof -
  let ?m = "replicate 65537 (CHR ''a'')"
  note shape = logPieces_shape [of ?m]
  have len: "length ?m div maxLogMsgSize = 1" "length ?m mod maxLogMsgSize = 1"
    by (simp_all add: maxLogMsgSize_def)
  have "length (logPieces ?m) = 2" using shape len by simp
  moreover have "length (logPieces ?m ! 0) = 65536" using shape len by simp
  moreover have "length (last (logPieces ?m)) = 1" using shape len by simp
  moreover have "length (logPieces ?m) = spec_chunk_count 65537" using shape len by simp
  ultimately show ?thesis by simp
qed

text \<open>
  C2, as the specification states it, fails: a content of exactly 65536 bytes is logged
  in two pieces (the full one and an empty one), while the ceiling of \<open>L / C\<close> is one.
\<close>

theorem logPieces_count_not_ceiling:
  "length (logPieces (replicate 65536 (CHR ''a''))) = 2
   \<and> spec_chunk_count (length (replicate 65536 (CHR ''a''))) = 1
   \<and> logPieces [] = [[]] \<and> spec_chunk_count (length ([] :: string)) = 0"
  by (simp add: logPieces_def spec_chunk_count_def maxLogMsgSize_def Let_def)


subsection \<open>The readiness wait\<close>

lemma polls_append [simp]: "polls (xs @ ys) = polls xs + polls ys"
  by (simp add: polls_def)

lemma foldl_instances:
  "foldl (\<lambda>n reservation. n + int (length (Instances reservation))) a rs
     = a + int (sum_list (map (\<lambda>r. length (Instances r)) rs))"
  by (induction rs arbitrary: a) simp_all

lemma ec2InstanceCount_sum:
  "ec2InstanceCount rs = int (sum_list (map (\<lambda>r. length (Instances r)) rs))"
  by (simp add: ec2InstanceCount_def foldl_instances)

lemma foldl_online:
  "foldl (\<lambda>n inst. if PingStatus inst = PingStatusOnline then n + 1 else n) a infos
     = a + int (length (filter (\<lambda>inst. PingStatus inst = PingStatusOnline) infos))"
  by (induction infos arbitrary: a) simp_all

lemma onlineInstanceCount_filter:
  "onlineInstanceCount infos = int (length (filter (\<lambda>inst. PingStatus inst = PingStatusOnline) infos))"
  by (simp add: onlineInstanceCount_def foldl_online)

lemma body_success_iff:
  "fst (waitForTargetInstances_body clients ec2Filters ssmFilters i tr) = Returns None \<longleftrightarrow>
   (\<exists>reservations infos.
      DescribeInstances clients i ec2Filters = Inr reservations
      \<and> DescribeInstanceInformation clients i ssmFilters = Inr infos
      \<and> infos \<noteq> []
      \<and> onlineInstanceCount infos = ec2InstanceCount reservations)"
  by (auto simp: waitForTargetInstances_body_def Let_def split: sum.splits)

lemma body_success_trace:
  assumes "fst (waitForTargetInstances_body clients ec2Filters ssmFilters i tr) = Returns None"
  shows "\<exists>msg. snd (waitForTargetInstances_body clients ec2Filters ssmFilters i tr)
           = tr @ [DescribeInstances_call ec2Filters,
                   DescribeInstanceInformation_call ssmFilters, Info msg]"
  using assms
  by (auto simp: waitForTargetInstances_body_def Let_def split: sum.splits if_splits)

lemma body_mismatch:
  assumes "DescribeInstances clients i ec2Filters = Inr reservations"
    and "DescribeInstanceInformation clients i ssmFilters = Inr infos"
    and "onlineInstanceCount infos \<noteq> ec2InstanceCount reservations"
  shows "fst (waitForTargetInstances_body clients ec2Filters ssmFilters i tr) = Continues ()
         \<and> last (snd (waitForTargetInstances_body clients ec2Filters ssmFilters i tr)) = Sleep sleepTime"
  using assms by (simp add: waitForTargetInstances_body_def Let_def)

lemma body_polls:
  "polls (snd (waitForTargetInstances_body clients ec2Filters ssmFilters i tr)) = polls tr + 1"
  by (simp add: waitForTargetInstances_body_def Let_def polls_def split: sum.splits)

lemma loop_success_observed:
  assumes "fst (waitForTargetInstances_loop clients ec2Filters ssmFilters timeout i tr) = None"
  shows "\<exists>j tr'. i \<le> j \<and> j < timeout sdiv sleepTime
           \<and> fst (waitForTargetInstances_body clients ec2Filters ssmFilters (nat j) tr') = Returns None"
  using assms
proof (induction clients ec2Filters ssmFilters timeout i tr rule: waitForTargetInstances_loop.induct)
  case (1 clients ec2Filters ssmFilters timeout i tr)
  show ?case
  proof (cases "i < timeout sdiv sleepTime")
    case False
    with "1.prems" show ?thesis
      by (simp add: waitForTargetInstances_loop.simps [of _ _ _ _ i])
  next
    case True
    obtain fl tr' where b: "waitForTargetInstances_body clients ec2Filters ssmFilters (nat i) tr = (fl, tr')"
      by (cases "waitForTargetInstances_body clients ec2Filters ssmFilters (nat i) tr")
    show ?thesis
    proof (cases fl)
      case (Returns r)
      with True b "1.prems" have "r = None"
        by (simp add: waitForTargetInstances_loop.simps [of _ _ _ _ i])
      with Returns b True show ?thesis by (intro exI [of _ i] exI [of _ tr]) simp
    next
      case (Continues u)
      with True b "1.prems"
      have "fst (waitForTargetInstances_loop clients ec2Filters ssmFilters timeout (i + 1) tr') = None"
        by (simp add: waitForTargetInstances_loop.simps [of _ _ _ _ i])
      from "1.IH" [OF True b [symmetric] Continues this]
      obtain j tr'' where "i + 1 \<le> j" "j < timeout sdiv sleepTime"
        "fst (waitForTargetInstances_body clients ec2Filters ssmFilters (nat j) tr'') = Returns None"
        by blast
      then show ?thesis by (intro exI [of _ j] exI [of _ tr'']) simp
    qed
  qed
qed

lemma loop_timeout:
  assumes "\<forall>j. i \<le> j \<and> j < timeout sdiv sleepTime \<longrightarrow>
             (\<forall>tr. fst (waitForTargetInstances_body clients ec2Filters ssmFilters (nat j) tr) = Continues ())"
  shows "fst (waitForTargetInstances_loop clients ec2Filters ssmFilters timeout i tr)
           = Some ''target instances are not online''
         \<and> polls (snd (waitForTargetInstances_loop clients ec2Filters ssmFilters timeout i tr))
           = polls tr + nat (timeout sdiv sleepTime - i)"
  using assms
proof (induction clients ec2Filters ssmFilters timeout i tr rule: waitForTargetInstances_loop.induct)
  case (1 clients ec2Filters ssmFilters timeout i tr)
  show ?case
  proof (cases "i < timeout sdiv sleepTime")
    case False
    then show ?thesis
      by (simp add: waitForTargetInstances_loop.simps [of _ _ _ _ i] polls_def)
  next
    case True
    obtain fl tr' where b: "waitForTargetInstances_body clients ec2Filters ssmFilters (nat i) tr = (fl, tr')"
      by (cases "waitForTargetInstances_body clients ec2Filters ssmFilters (nat i) tr")
    from "1.prems" True have "fst (waitForTargetInstances_body clients ec2Filters ssmFilters (nat i) tr) = Continues ()"
      by simp
    with b have fl: "fl = Continues ()" by simp
    have p: "polls tr' = polls tr + 1"
      using body_polls [of clients ec2Filters ssmFilters "nat i" tr] b by simp
    have "\<forall>j. i + 1 \<le> j \<and> j < timeout sdiv sleepTime \<longrightarrow>
             (\<forall>tr. fst (waitForTargetInstances_body clients ec2Filters ssmFilters (nat j) tr) = Continues ())"
      using "1.prems" by simp
    from "1.IH" [OF True b [symmetric] fl this]
    have "fst (waitForTargetInstances_loop clients ec2Filters ssmFilters timeout (i + 1) tr')
            = Some ''target instances are not online''
          \<and> polls (snd (waitForTargetInstances_loop clients ec2Filters ssmFilters timeout (i + 1) tr'))
            = polls tr' + nat (timeout sdiv sleepTime - (i + 1))" .
    moreover have "waitForTargetInstances_loop clients ec2Filters ssmFilters timeout i tr
        = waitForTargetInstances_loop clients ec2Filters ssmFilters timeout (i + 1) tr'"
      using True b fl by (simp add: waitForTargetInstances_loop.simps [of _ _ _ _ i])
    ultimately show ?thesis using p True by (simp add: nat_diff_distrib)
  qed
qed

subsection \<open>The invocation wait\<close>

lemma not_failing_pending:
  "s = ''Pending'' \<or> s = ''InProgress'' \<Longrightarrow> \<not> failing s"
  by (auto simp: failing_def)

lemma ToLower_failing:
  "failing s \<Longrightarrow> ToLower s \<in> {''cancelled'', ''timedout'', ''failed''}"
proof -
  have "ToLower ''Cancelled'' = ''cancelled''" "ToLower ''TimedOut'' = ''timedout''"
    "ToLower ''Failed'' = ''failed''"
    by code_simp+
  then show "failing s \<Longrightarrow> ToLower s \<in> {''cancelled'', ''timedout'', ''failed''}"
    by (auto simp: failing_def)
qed

lemma scan_polls:
  "polls (snd (scanInvocations commandId invs n tr)) = polls tr"
  by (induction invs arbitrary: n) (auto simp: polls_def split: option.splits)

lemma scan_first_failing:
  assumes "find (\<lambda>v. failing (inv_Status v)) invs = Some v"
  shows "scanInvocations commandId invs n tr =
     (case inv_InstanceId v of
        None \<Rightarrow> (Inl NilDereference, tr)
      | Some instanceId \<Rightarrow>
          (Inr (Returns (Some (''command invocation '' @ ToLower (inv_Status v)
                   @ '' on '' @ instanceId @ '' instance''))),
           tr @ [Info (''Command '' @ commandId @ '' invocation '' @ inv_Status v
                   @ '' on instance '' @ instanceId @ ''.'')]))"
  using assms
proof (induction invs arbitrary: n)
  case Nil
  then show ?case by simp
next
  case (Cons a invs)
  show ?case
  proof (cases "failing (inv_Status a)")
    case True
    then have "\<not> (inv_Status a = ''Pending'' \<or> inv_Status a = ''InProgress'')"
      using not_failing_pending by blast
    moreover from True Cons.prems have "a = v" by simp
    ultimately show ?thesis using True by (simp split: option.splits)
  next
    case False
    with Cons.prems have "find (\<lambda>v. failing (inv_Status v)) invs = Some v" by simp
    from Cons.IH [OF this] False show ?thesis by simp
  qed
qed

lemma scan_no_failing:
  assumes "\<forall>v\<in>set invs. \<not> failing (inv_Status v)"
  shows "scanInvocations commandId invs n tr =
     (Inr (Continues (n + int (length (filter (\<lambda>v. inv_Status v = ''Pending'' \<or> inv_Status v = ''InProgress'') invs)))), tr)"
  using assms by (induction invs arbitrary: n) auto

lemma inv_body_polls:
  "polls (snd (waitForCommandInvocations_body clients commandId i tr)) = polls tr + 1"
proof (cases "ListCommandInvocations clients i commandId")
  case (Inl err)
  then show ?thesis by (simp add: waitForCommandInvocations_body_def polls_def)
next
  case (Inr invs)
  obtain r tr2 where s: "scanInvocations commandId invs 0 (tr @ [ListCommandInvocations_call commandId]) = (r, tr2)"
    by (cases "scanInvocations commandId invs 0 (tr @ [ListCommandInvocations_call commandId])")
  have "polls tr2 = polls tr + 1"
    using scan_polls [of commandId invs 0 "tr @ [ListCommandInvocations_call commandId]"] s
    by (simp add: polls_def)
  with Inr s show ?thesis
    by (auto simp: waitForCommandInvocations_body_def Let_def polls_def split: sum.splits flow.splits)
qed

lemma inv_loop_step:
  assumes "i < timeout sdiv sleepTime"
    and "fst (waitForCommandInvocations_body clients commandId (nat i) tr) = Inr (Continues u)"
  shows "waitForCommandInvocations_loop clients commandId timeout i tr
         = waitForCommandInvocations_loop clients commandId timeout (i + 1)
             (snd (waitForCommandInvocations_body clients commandId (nat i) tr))"
proof -
  obtain fl tr' where b: "waitForCommandInvocations_body clients commandId (nat i) tr = (fl, tr')"
    by (cases "waitForCommandInvocations_body clients commandId (nat i) tr")
  with assms show ?thesis
    by (simp add: waitForCommandInvocations_loop.simps [of _ _ _ i])
qed

lemma inv_loop_exhausted:
  assumes "\<not> i < timeout sdiv sleepTime"
  shows "waitForCommandInvocations_loop clients commandId timeout i tr
         = (Inr (Some ''command invocations timed out''),
            tr @ [LogError ''Command invocations timed out.''])"
  using assms by (simp add: waitForCommandInvocations_loop.simps [of _ _ _ i])

lemma inv_loop_timeout:
  assumes "\<forall>j. i \<le> j \<and> j < timeout sdiv sleepTime \<longrightarrow>
             (\<forall>tr. fst (waitForCommandInvocations_body clients commandId (nat j) tr) = Inr (Continues ()))"
  shows "fst (waitForCommandInvocations_loop clients commandId timeout i tr)
           = Inr (Some ''command invocations timed out'')
         \<and> polls (snd (waitForCommandInvocations_loop clients commandId timeout i tr))
           = polls tr + nat (timeout sdiv sleepTime - i)"
  using assms
proof (induction clients commandId timeout i tr rule: waitForCommandInvocations_loop.induct)
  case (1 clients commandId timeout i tr)
  show ?case
  proof (cases "i < timeout sdiv sleepTime")
    case False
    then show ?thesis by (simp add: inv_loop_exhausted polls_def)
  next
    case True
    let ?b = "waitForCommandInvocations_body clients commandId (nat i) tr"
    from "1.prems" True have fl: "fst ?b = Inr (Continues ())" by simp
    have p: "polls (snd ?b) = polls tr + 1" by (rule inv_body_polls)
    have rest: "\<forall>j. i + 1 \<le> j \<and> j < timeout sdiv sleepTime \<longrightarrow>
             (\<forall>tr. fst (waitForCommandInvocations_body clients commandId (nat j) tr) = Inr (Continues ()))"
      using "1.prems" by simp
    have "(Inr (Continues ()), snd ?b) = ?b" using fl by (metis prod.collapse)
    from "1.IH" [OF True this refl refl rest]
    have "fst (waitForCommandInvocations_loop clients commandId timeout (i + 1) (snd ?b))
            = Inr (Some ''command invocations timed out'')
          \<and> polls (snd (waitForCommandInvocations_loop clients commandId timeout (i + 1) (snd ?b)))
            = polls (snd ?b) + nat (timeout sdiv sleepTime - (i + 1))" .
    then show ?thesis
      using inv_loop_step [OF True fl] p True by (simp add: nat_diff_distrib)
  qed
qed

lemma inv_loop_failing:
  assumes "i < timeout sdiv sleepTime"
    and "ListCommandInvocations clients (nat i) commandId = Inr invs"
    and "find (\<lambda>v. failing (inv_Status v)) invs = Some v"
  shows "waitForCommandInvocations_loop clients commandId timeout i tr =
     (case inv_InstanceId v of
        None \<Rightarrow> (Inl NilDereference, tr @ [ListCommandInvocations_call commandId])
      | Some instanceId \<Rightarrow>
          (Inr (Some (''command invocation '' @ ToLower (inv_Status v)
                   @ '' on '' @ instanceId @ '' instance'')),
           tr @ [ListCommandInvocations_call commandId,
                 Info (''Command '' @ commandId @ '' invocation '' @ inv_Status v
                   @ '' on instance '' @ instanceId @ ''.'')]))"
proof -
  from assms(3) have ne: "invs \<noteq> []" by auto
  show ?thesis
    using assms(1,2) ne scan_first_failing [OF assms(3), of commandId 0 "tr @ [ListCommandInvocations_call commandId]"]
    by (simp add: waitForCommandInvocations_loop.simps [of _ _ _ i]
        waitForCommandInvocations_body_def Let_def split: option.splits)
qed

lemma inv_body_last_sleep:
  assumes "fst (waitForCommandInvocations_body clients commandId i tr) = Inr (Continues u)"
  shows "last (snd (waitForCommandInvocations_body clients commandId i tr)) = Sleep sleepTime"
  using assms
  by (auto simp: waitForCommandInvocations_body_def Let_def
      split: sum.splits flow.splits prod.splits if_splits)

lemma sdiv_sleepTime: "nat (T sdiv sleepTime) = nat (T div 10)"
  by (cases "0 \<le> T") (auto simp: sleepTime_def signed_divide_int_def sgn_if div_le_mono)

lemma sdiv_sleepTime_small: "T < 10 \<Longrightarrow> \<not> 0 < T sdiv sleepTime"
  using sdiv_sleepTime [of T] by (cases "0 \<le> T") (auto simp: sleepTime_def signed_divide_int_def sgn_if)

text \<open>
  C3. One iteration of the readiness loop returns \<open>nil\<close> exactly when both queries
  answer, the agent inventory is not empty and the number of its entries that are online
  equals the number \<open>N\<close> of instances in the compute inventory. It then returns at
  once, with no sleep after the progress line, and an iteration in which the online
  entries stay below \<open>N\<close> goes on to the next attempt.
\<close>

theorem readiness_iteration_succeeds_iff:
  "(fst (waitForTargetInstances_body clients ec2Filters ssmFilters i tr) = Returns None \<longleftrightarrow>
      (\<exists>reservations infos.
         DescribeInstances clients i ec2Filters = Inr reservations
         \<and> DescribeInstanceInformation clients i ssmFilters = Inr infos
         \<and> infos \<noteq> []
         \<and> length (filter (\<lambda>inst. PingStatus inst = PingStatusOnline) infos)
             = sum_list (map (\<lambda>r. length (Instances r)) reservations)))
   \<and> (fst (waitForTargetInstances_body clients ec2Filters ssmFilters i tr) = Returns None \<longrightarrow>
        (\<exists>msg. snd (waitForTargetInstances_body clients ec2Filters ssmFilters i tr)
           = tr @ [DescribeInstances_call ec2Filters,
                   DescribeInstanceInformation_call ssmFilters, Info msg]))
   \<and> (\<forall>reservations infos.
         DescribeInstances clients i ec2Filters = Inr reservations
         \<and> DescribeInstanceInformation clients i ssmFilters = Inr infos
         \<and> length (filter (\<lambda>inst. PingStatus inst = PingStatusOnline) infos)
             < sum_list (map (\<lambda>r. length (Instances r)) reservations)
         \<longrightarrow> fst (waitForTargetInstances_body clients ec2Filters ssmFilters i tr) = Continues ())"
proof (intro conjI allI impI)
  show "fst (waitForTargetInstances_body clients ec2Filters ssmFilters i tr) = Returns None \<longleftrightarrow>
      (\<exists>reservations infos.
         DescribeInstances clients i ec2Filters = Inr reservations
         \<and> DescribeInstanceInformation clients i ssmFilters = Inr infos
         \<and> infos \<noteq> []
         \<and> length (filter (\<lambda>inst. PingStatus inst = PingStatusOnline) infos)
             = sum_list (map (\<lambda>r. length (Instances r)) reservations))"
    by (simp add: body_success_iff onlineInstanceCount_filter ec2InstanceCount_sum)
next
  assume "fst (waitForTargetInstances_body clients ec2Filters ssmFilters i tr) = Returns None"
  then show "\<exists>msg. snd (waitForTargetInstances_body clients ec2Filters ssmFilters i tr)
           = tr @ [DescribeInstances_call ec2Filters,
                   DescribeInstanceInformation_call ssmFilters, Info msg]"
    by (rule body_success_trace)
next
  fix reservations infos
  assume a: "DescribeInstances clients i ec2Filters = Inr reservations
         \<and> DescribeInstanceInformation clients i ssmFilters = Inr infos
         \<and> length (filter (\<lambda>inst. PingStatus inst = PingStatusOnline) infos)
             < sum_list (map (\<lambda>r. length (Instances r)) reservations)"
  then have "onlineInstanceCount infos \<noteq> ec2InstanceCount reservations"
    by (simp add: onlineInstanceCount_filter ec2InstanceCount_sum)
  with a show "fst (waitForTargetInstances_body clients ec2Filters ssmFilters i tr) = Continues ()"
    using body_mismatch by blast
qed

theorem readiness_iteration_succeeds_iff_witness:
  "fst (waitForTargetInstances_body sample_clients [] [] 2 []) = Returns None
   \<and> (\<exists>msg. snd (waitForTargetInstances_body sample_clients [] [] 2 [])
         = [DescribeInstances_call [], DescribeInstanceInformation_call [], Info msg])
   \<and> fst (waitForTargetInstances_body sample_clients [] [] 1 []) = Continues ()"
proof -
  note iff = readiness_iteration_succeeds_iff [of sample_clients "[]" "[]" _ "[]"]
  have ready: "fst (waitForTargetInstances_body sample_clients [] [] 2 []) = Returns None"
    using iff [of 2] by (simp add: sample_clients_def PingStatusOnline_def)
  moreover have "\<exists>msg. snd (waitForTargetInstances_body sample_clients [] [] 2 [])
         = [DescribeInstances_call [], DescribeInstanceInformation_call [], Info msg]"
    using iff [of 2] ready by simp
  moreover have "fst (waitForTargetInstances_body sample_clients [] [] 1 []) = Continues ()"
    using iff [of 1] by (simp add: sample_clients_def PingStatusOnline_def)
  ultimately show ?thesis by simp
qed

lemma spec_ready_online:
  assumes "spec_ready reservations infos"
  shows "onlineInstanceCount infos = ec2InstanceCount reservations"
proof -
  from assms have "filter (\<lambda>inst. PingStatus inst = PingStatusOnline) infos = infos"
    by (simp add: spec_ready_def list_all_iff)
  with assms show ?thesis by (simp add: spec_ready_def onlineInstanceCount_filter)
qed

text \<open>
  C1, as the code has it. When the readiness wait returns \<open>nil\<close>, some attempt below
  the bound has seen a non-empty agent inventory whose online entries are as many as the
  instances of the compute inventory. An attempt whose two counts differ is neither a
  success nor an error: the loop sleeps and goes on. The condition of the specification
  (equal sizes, all entries online), on a non-empty agent inventory, is enough to proceed;
  the counterexample after the witness shows that it is not needed.
\<close>

theorem readiness_needs_matching_online_count:
  "(fst (waitForTargetInstances clients ec2Filters ssmFilters timeout tr) = None \<longrightarrow>
      (\<exists>j reservations infos.
         0 \<le> j \<and> j < timeout sdiv sleepTime
         \<and> DescribeInstances clients (nat j) ec2Filters = Inr reservations
         \<and> DescribeInstanceInformation clients (nat j) ssmFilters = Inr infos
         \<and> infos \<noteq> []
         \<and> onlineInstanceCount infos = ec2InstanceCount reservations))
   \<and> (\<forall>i reservations infos tr'.
         DescribeInstances clients i ec2Filters = Inr reservations
         \<and> DescribeInstanceInformation clients i ssmFilters = Inr infos
         \<and> onlineInstanceCount infos \<noteq> ec2InstanceCount reservations
         \<longrightarrow> fst (waitForTargetInstances_body clients ec2Filters ssmFilters i tr') = Continues ()
             \<and> last (snd (waitForTargetInstances_body clients ec2Filters ssmFilters i tr'))
                 = Sleep sleepTime)
   \<and> (\<forall>i reservations infos tr'.
         DescribeInstances clients i ec2Filters = Inr reservations
         \<and> DescribeInstanceInformation clients i ssmFilters = Inr infos
         \<and> infos \<noteq> [] \<and> spec_ready reservations infos
         \<longrightarrow> fst (waitForTargetInstances_body clients ec2Filters ssmFilters i tr') = Returns None)"
proof (intro conjI allI impI)
  assume "fst (waitForTargetInstances clients ec2Filters ssmFilters timeout tr) = None"
  then have "fst (waitForTargetInstances_loop clients ec2Filters ssmFilters timeout 0 tr) = None"
    by (simp add: waitForTargetInstances_def)
  from loop_success_observed [OF this]
  obtain j tr' where j: "0 \<le> j" "j < timeout sdiv sleepTime"
    and "fst (waitForTargetInstances_body clients ec2Filters ssmFilters (nat j) tr') = Returns None"
    by blast
  then obtain reservations infos where
    "DescribeInstances clients (nat j) ec2Filters = Inr reservations"
    "DescribeInstanceInformation clients (nat j) ssmFilters = Inr infos"
    "infos \<noteq> []" "onlineInstanceCount infos = ec2InstanceCount reservations"
    using body_success_iff by blast
  with j show "\<exists>j reservations infos.
         0 \<le> j \<and> j < timeout sdiv sleepTime
         \<and> DescribeInstances clients (nat j) ec2Filters = Inr reservations
         \<and> DescribeInstanceInformation clients (nat j) ssmFilters = Inr infos
         \<and> infos \<noteq> []
         \<and> onlineInstanceCount infos = ec2InstanceCount reservations"
    by blast
next
  fix i reservations infos tr'
  assume "DescribeInstances clients i ec2Filters = Inr reservations
         \<and> DescribeInstanceInformation clients i ssmFilters = Inr infos
         \<and> onlineInstanceCount infos \<noteq> ec2InstanceCount reservations"
  then have "fst (waitForTargetInstances_body clients ec2Filters ssmFilters i tr') = Continues ()
         \<and> last (snd (waitForTargetInstances_body clients ec2Filters ssmFilters i tr')) = Sleep sleepTime"
    using body_mismatch by blast
  then show "fst (waitForTargetInstances_body clients ec2Filters ssmFilters i tr') = Continues ()"
    and "last (snd (waitForTargetInstances_body clients ec2Filters ssmFilters i tr')) = Sleep sleepTime"
    by simp_all
next
  fix i reservations infos tr'
  assume a: "DescribeInstances clients i ec2Filters = Inr reservations
         \<and> DescribeInstanceInformation clients i ssmFilters = Inr infos
         \<and> infos \<noteq> [] \<and> spec_ready reservations infos"
  then have "onlineInstanceCount infos = ec2InstanceCount reservations"
    using spec_ready_online by blast
  with a show "fst (waitForTargetInstances_body clients ec2Filters ssmFilters i tr') = Returns None"
    using body_success_iff by blast
qed

lemma sample_wait:
  "fst (waitForTargetInstances sample_clients ef sf waitTimeout tr) = None"
  by (simp add: waitForTargetInstances_def waitForTargetInstances_loop.simps
      waitForTargetInstances_body_def sample_clients_def waitTimeout_def sleepTime_def
      signed_divide_int_def onlineInstanceCount_def ec2InstanceCount_def PingStatusOnline_def Let_def)

theorem readiness_needs_matching_online_count_witness:
  "fst (waitForTargetInstances sample_clients [] [] waitTimeout []) = None
   \<and> (\<exists>j reservations infos.
         0 \<le> j \<and> j < waitTimeout sdiv sleepTime
         \<and> DescribeInstances sample_clients (nat j) [] = Inr reservations
         \<and> DescribeInstanceInformation sample_clients (nat j) [] = Inr infos
         \<and> infos \<noteq> []
         \<and> onlineInstanceCount infos = ec2InstanceCount reservations)
   \<and> fst (waitForTargetInstances_body sample_clients [] [] 1 []) = Continues ()
   \<and> last (snd (waitForTargetInstances_body sample_clients [] [] 1 [])) = Sleep sleepTime
   \<and> fst (waitForTargetInstances_body sample_clients [] [] 2 []) = Returns None"
proof -
  note inst = readiness_needs_matching_online_count [of sample_clients "[]" "[]" waitTimeout "[]"]
  have w: "fst (waitForTargetInstances sample_clients [] [] waitTimeout []) = None"
    by (rule sample_wait)
  from inst w have ex: "\<exists>j reservations infos.
         0 \<le> j \<and> j < waitTimeout sdiv sleepTime
         \<and> DescribeInstances sample_clients (nat j) [] = Inr reservations
         \<and> DescribeInstanceInformation sample_clients (nat j) [] = Inr infos
         \<and> infos \<noteq> []
         \<and> onlineInstanceCount infos = ec2InstanceCount reservations"
    by blast
  let ?rs = "[\<lparr>Instances = [\<lparr>instance_InstanceId = Some ''i-1''\<rparr>,
                            \<lparr>instance_InstanceId = Some ''i-2''\<rparr>]\<rparr>]"
  let ?lost = "[\<lparr>info_InstanceId = Some ''i-1'', PingStatus = ''Online''\<rparr>,
                \<lparr>info_InstanceId = Some ''i-2'', PingStatus = ''ConnectionLost''\<rparr>]"
  let ?on = "[\<lparr>info_InstanceId = Some ''i-1'', PingStatus = ''Online''\<rparr>,
              \<lparr>info_InstanceId = Some ''i-2'', PingStatus = ''Online''\<rparr>]"
  have m: "DescribeInstances sample_clients 1 [] = Inr ?rs
         \<and> DescribeInstanceInformation sample_clients 1 [] = Inr ?lost
         \<and> onlineInstanceCount ?lost \<noteq> ec2InstanceCount ?rs"
    by (simp add: sample_clients_def onlineInstanceCount_def ec2InstanceCount_def PingStatusOnline_def)
  have r: "DescribeInstances sample_clients 2 [] = Inr ?rs
         \<and> DescribeInstanceInformation sample_clients 2 [] = Inr ?on
         \<and> ?on \<noteq> [] \<and> spec_ready ?rs ?on"
    by (simp add: sample_clients_def spec_ready_def ec2InstanceCount_def PingStatusOnline_def)
  from inst m have "fst (waitForTargetInstances_body sample_clients [] [] 1 []) = Continues ()
     \<and> last (snd (waitForTargetInstances_body sample_clients [] [] 1 [])) = Sleep sleepTime"
    by blast
  moreover from inst r have "fst (waitForTargetInstances_body sample_clients [] [] 2 []) = Returns None"
    by blast
  ultimately show ?thesis using w ex by simp
qed

text \<open>
  C1, as the specification states it, fails: with one running instance and an agent
  inventory of two entries, one online and one without connection, the wait returns
  \<open>nil\<close> after its first poll, although the inventories differ in size and not every
  entry is online.
\<close>

theorem readiness_proceeds_on_unequal_inventories:
  "fst (waitForTargetInstances stopped_clients [] [] waitTimeout []) = None
   \<and> polls (snd (waitForTargetInstances stopped_clients [] [] waitTimeout [])) = 1
   \<and> DescribeInstances stopped_clients 0 []
       = Inr [\<lparr>Instances = [\<lparr>instance_InstanceId = Some ''i-1''\<rparr>]\<rparr>]
   \<and> DescribeInstanceInformation stopped_clients 0 []
       = Inr [\<lparr>info_InstanceId = Some ''i-1'', PingStatus = ''Online''\<rparr>,
              \<lparr>info_InstanceId = Some ''i-2'', PingStatus = ''ConnectionLost''\<rparr>]
   \<and> \<not> spec_ready [\<lparr>Instances = [\<lparr>instance_InstanceId = Some ''i-1''\<rparr>]\<rparr>]
         [\<lparr>info_InstanceId = Some ''i-1'', PingStatus = ''Online''\<rparr>,
          \<lparr>info_InstanceId = Some ''i-2'', PingStatus = ''ConnectionLost''\<rparr>]"
  by (simp add: waitForTargetInstances_def waitForTargetInstances_loop.simps
      waitForTargetInstances_body_def stopped_clients_def sample_clients_def waitTimeout_def
      sleepTime_def signed_divide_int_def onlineInstanceCount_def ec2InstanceCount_def
      PingStatusOnline_def spec_ready_def polls_def Let_def)

lemma failing_listed_found:
  "(\<exists>x\<in>set invocations. failing (inv_Status x)) \<longleftrightarrow>
   (\<exists>v. find (\<lambda>v. failing (inv_Status v)) invocations = Some v)"
proof -
  have "(\<exists>v. find (\<lambda>v. failing (inv_Status v)) invocations = Some v)
          \<longleftrightarrow> find (\<lambda>v. failing (inv_Status v)) invocations \<noteq> None"
    by simp
  also have "\<dots> \<longleftrightarrow> (\<exists>x\<in>set invocations. failing (inv_Status x))"
    by (auto simp: find_None_iff)
  finally show ?thesis by simp
qed

text \<open>
  C4. When the list of an attempt holds an invocation whose status is Cancelled, TimedOut
  or Failed, the wait ends in that attempt, whatever the other invocations are: with
  \<open>v\<close> the first such invocation, the result is the error that names the instance of
  \<open>v\<close> and its status in lower case, after one query and one log line and with no
  sleep. (An invocation without instance identifier makes the dereference panic.)
\<close>

theorem failing_invocation_fails_wait:
  assumes "i < timeout sdiv sleepTime"
    and "ListCommandInvocations clients (nat i) commandId = Inr invocations"
    and "\<exists>x\<in>set invocations. failing (inv_Status x)"
  shows "\<exists>v. find (\<lambda>v. failing (inv_Status v)) invocations = Some v
         \<and> waitForCommandInvocations_loop clients commandId timeout i tr =
             (case inv_InstanceId v of
                None \<Rightarrow> (Inl NilDereference, tr @ [ListCommandInvocations_call commandId])
              | Some instanceId \<Rightarrow>
                  (Inr (Some (''command invocation '' @ ToLower (inv_Status v)
                           @ '' on '' @ instanceId @ '' instance'')),
                   tr @ [ListCommandInvocations_call commandId,
                         Info (''Command '' @ commandId @ '' invocation '' @ inv_Status v
                           @ '' on instance '' @ instanceId @ ''.'')]))
         \<and> v \<in> set invocations
         \<and> inv_Status v \<in> {''Cancelled'', ''TimedOut'', ''Failed''}
         \<and> ToLower (inv_Status v) \<in> {''cancelled'', ''timedout'', ''failed''}"
proof -
  from assms(3) obtain v where v: "find (\<lambda>v. failing (inv_Status v)) invocations = Some v"
    using failing_listed_found by blast
  then have "v \<in> set invocations" and f: "failing (inv_Status v)"
    by (auto simp: find_Some_iff)
  moreover from f have "inv_Status v \<in> {''Cancelled'', ''TimedOut'', ''Failed''}"
    by (simp add: failing_def)
  ultimately show ?thesis
    using v inv_loop_failing [OF assms(1,2) v] ToLower_failing [OF f] by blast
qed

theorem failing_invocation_fails_wait_witness:
  "waitForCommandInvocations_loop sample_clients ''cmd-1'' 600 2 []
     = (Inr (Some ''command invocation failed on i-2 instance''),
        [ListCommandInvocations_call ''cmd-1'',
         Info ''Command cmd-1 invocation Failed on instance i-2.''])"
proof -
  let ?v = "\<lparr>inv_InstanceId = Some ''i-2'', inv_Status = ''Failed''\<rparr>"
  let ?invs = "[\<lparr>inv_InstanceId = Some ''i-1'', inv_Status = ''Pending''\<rparr>, ?v,
                \<lparr>inv_InstanceId = Some ''i-3'', inv_Status = ''TimedOut''\<rparr>]"
  have 1: "(2::int) < 600 sdiv sleepTime"
    by (simp add: sleepTime_def signed_divide_int_def)
  have 2: "ListCommandInvocations sample_clients (nat 2) ''cmd-1'' = Inr ?invs"
    by (simp add: sample_clients_def)
  have 3: "\<exists>x\<in>set ?invs. failing (inv_Status x)"
    by (simp add: failing_def)
  have first: "find (\<lambda>v. failing (inv_Status v)) ?invs = Some ?v"
    by (simp add: failing_def)
  have low: "ToLower ''Failed'' = ''failed''" by code_simp
  from failing_invocation_fails_wait [OF 1 2 3, of "[]"]
  obtain v where "find (\<lambda>v. failing (inv_Status v)) ?invs = Some v"
    and r: "waitForCommandInvocations_loop sample_clients ''cmd-1'' 600 2 [] =
             (case inv_InstanceId v of
                None \<Rightarrow> (Inl NilDereference, [] @ [ListCommandInvocations_call ''cmd-1''])
              | Some instanceId \<Rightarrow>
                  (Inr (Some (''command invocation '' @ ToLower (inv_Status v)
                           @ '' on '' @ instanceId @ '' instance'')),
                   [] @ [ListCommandInvocations_call ''cmd-1'',
                         Info (''Command '' @ ''cmd-1'' @ '' invocation '' @ inv_Status v
                           @ '' on instance '' @ instanceId @ ''.'')]))"
    by blast
  with first have "v = ?v" by simp
  with r low show ?thesis by simp
qed

text \<open>
  C5. For every timeout \<open>T\<close>, when no attempt returns, each waiter makes exactly
  \<open>T div 10\<close> poll attempts, the floor of \<open>T / 10\<close>, and then returns its timeout
  error; below ten seconds it makes none and only logs the error.
\<close>

theorem timeout_after_quotient_attempts:
  "((\<forall>j < nat (T div 10). \<forall>tr'.
       fst (waitForTargetInstances_body clients ec2Filters ssmFilters j tr') = Continues ()) \<longrightarrow>
      fst (waitForTargetInstances clients ec2Filters ssmFilters T tr)
        = Some ''target instances are not online''
      \<and> polls (snd (waitForTargetInstances clients ec2Filters ssmFilters T tr))
        = polls tr + nat (T div 10))
   \<and> ((\<forall>j < nat (T div 10). \<forall>tr'.
       fst (waitForCommandInvocations_body clients commandId j tr') = Inr (Continues ())) \<longrightarrow>
      fst (waitForCommandInvocations clients commandId (Some T) tr)
        = Inr (Some ''command invocations timed out'')
      \<and> polls (snd (waitForCommandInvocations clients commandId (Some T) tr))
        = polls tr + nat (T div 10))
   \<and> (T < 10 \<longrightarrow>
        waitForTargetInstances clients ec2Filters ssmFilters T tr
          = (Some ''target instances are not online'',
             tr @ [LogError ''Target instances are not online.''])
        \<and> waitForCommandInvocations clients commandId (Some T) tr
          = (Inr (Some ''command invocations timed out''),
             tr @ [LogError ''Command invocations timed out.'']))
   \<and> sleepTime = 10"
proof (intro conjI impI)
  assume a: "\<forall>j < nat (T div 10). \<forall>tr'.
       fst (waitForTargetInstances_body clients ec2Filters ssmFilters j tr') = Continues ()"
  have "\<forall>j. 0 \<le> j \<and> j < T sdiv sleepTime \<longrightarrow>
          (\<forall>tr'. fst (waitForTargetInstances_body clients ec2Filters ssmFilters (nat j) tr') = Continues ())"
  proof (intro allI impI)
    fix j tr'
    assume "0 \<le> j \<and> j < T sdiv sleepTime"
    then have "nat j < nat (T sdiv sleepTime)" by simp
    then have "nat j < nat (T div 10)" by (simp add: sdiv_sleepTime)
    with a show "fst (waitForTargetInstances_body clients ec2Filters ssmFilters (nat j) tr') = Continues ()"
      by blast
  qed
  from loop_timeout [OF this, of tr]
  show "fst (waitForTargetInstances clients ec2Filters ssmFilters T tr)
        = Some ''target instances are not online''"
    and "polls (snd (waitForTargetInstances clients ec2Filters ssmFilters T tr))
        = polls tr + nat (T div 10)"
    by (simp_all add: waitForTargetInstances_def sdiv_sleepTime)
next
  assume a: "\<forall>j < nat (T div 10). \<forall>tr'.
       fst (waitForCommandInvocations_body clients commandId j tr') = Inr (Continues ())"
  have "\<forall>j. 0 \<le> j \<and> j < T sdiv sleepTime \<longrightarrow>
          (\<forall>tr'. fst (waitForCommandInvocations_body clients commandId (nat j) tr') = Inr (Continues ()))"
  proof (intro allI impI)
    fix j tr'
    assume "0 \<le> j \<and> j < T sdiv sleepTime"
    then have "nat j < nat (T sdiv sleepTime)" by simp
    then have "nat j < nat (T div 10)" by (simp add: sdiv_sleepTime)
    with a show "fst (waitForCommandInvocations_body clients commandId (nat j) tr') = Inr (Continues ())"
      by blast
  qed
  from inv_loop_timeout [OF this, of tr]
  show "fst (waitForCommandInvocations clients commandId (Some T) tr)
        = Inr (Some ''command invocations timed out'')"
    and "polls (snd (waitForCommandInvocations clients commandId (Some T) tr))
        = polls tr + nat (T div 10)"
    by (simp_all add: waitForCommandInvocations_def sdiv_sleepTime)
next
  assume "T < 10"
  then have n: "\<not> 0 < T sdiv sleepTime" by (rule sdiv_sleepTime_small)
  then show "waitForTargetInstances clients ec2Filters ssmFilters T tr
          = (Some ''target instances are not online'',
             tr @ [LogError ''Target instances are not online.''])"
    by (simp add: waitForTargetInstances_def waitForTargetInstances_loop.simps [of _ _ _ _ 0])
  from n show "waitForCommandInvocations clients commandId (Some T) tr
          = (Inr (Some ''command invocations timed out''),
             tr @ [LogError ''Command invocations timed out.''])"
    by (simp add: waitForCommandInvocations_def inv_loop_exhausted)
next
  show "sleepTime = 10" by (simp add: sleepTime_def)
qed

theorem timeout_after_quotient_attempts_witness:
  "fst (waitForTargetInstances idle_clients [] [] 600 []) = Some ''target instances are not online''
   \<and> polls (snd (waitForTargetInstances idle_clients [] [] 600 [])) = 60
   \<and> fst (waitForCommandInvocations idle_clients ''cmd-1'' (Some 600) [])
       = Inr (Some ''command invocations timed out'')
   \<and> polls (snd (waitForCommandInvocations idle_clients ''cmd-1'' (Some 600) [])) = 60
   \<and> waitForTargetInstances idle_clients [] [] 9 []
       = (Some ''target instances are not online'', [LogError ''Target instances are not online.''])
   \<and> waitForCommandInvocations idle_clients ''cmd-1'' (Some 9) []
       = (Inr (Some ''command invocations timed out''), [LogError ''Command invocations timed out.''])"
proof -
  have a: "\<forall>j < nat (600 div 10). \<forall>tr'.
       fst (waitForTargetInstances_body idle_clients [] [] j tr') = Continues ()"
    by (simp add: waitForTargetInstances_body_def idle_clients_def sample_clients_def)
  have b: "\<forall>j < nat (600 div 10). \<forall>tr'.
       fst (waitForCommandInvocations_body idle_clients ''cmd-1'' j tr') = Inr (Continues ())"
    by (simp add: waitForCommandInvocations_body_def idle_clients_def sample_clients_def)
  from timeout_after_quotient_attempts [of 600 idle_clients "[]" "[]" "[]" "''cmd-1''"] a b
  have "fst (waitForTargetInstances idle_clients [] [] 600 []) = Some ''target instances are not online''
   \<and> polls (snd (waitForTargetInstances idle_clients [] [] 600 [])) = 60
   \<and> fst (waitForCommandInvocations idle_clients ''cmd-1'' (Some 600) [])
       = Inr (Some ''command invocations timed out'')
   \<and> polls (snd (waitForCommandInvocations idle_clients ''cmd-1'' (Some 600) [])) = 60"
    by (simp add: polls_def)
  moreover from timeout_after_quotient_attempts [of 9 idle_clients "[]" "[]" "[]" "''cmd-1''"]
  have "waitForTargetInstances idle_clients [] [] 9 []
       = (Some ''target instances are not online'', [LogError ''Target instances are not online.''])
   \<and> waitForCommandInvocations idle_clients ''cmd-1'' (Some 9) []
       = (Inr (Some ''command invocations timed out''), [LogError ''Command invocations timed out.''])"
    by simp
  ultimately show ?thesis by simp
qed

lemma inv_body_empty:
  assumes "ListCommandInvocations clients i commandId = Inr []"
  shows "waitForCommandInvocations_body clients commandId i tr
           = (Inr (Continues ()), tr @ [ListCommandInvocations_call commandId, Sleep sleepTime])"
  using assms by (simp add: waitForCommandInvocations_body_def)

lemma inv_loop_empties:
  assumes "\<forall>j. i \<le> j \<and> j < i + int m \<longrightarrow>
             j < timeout sdiv sleepTime \<and> ListCommandInvocations clients (nat j) commandId = Inr []"
  shows "waitForCommandInvocations_loop clients commandId timeout i tr
         = waitForCommandInvocations_loop clients commandId timeout (i + int m)
             (tr @ concat (replicate m [ListCommandInvocations_call commandId, Sleep sleepTime]))"
  using assms
proof (induction m arbitrary: i tr)
  case 0
  then show ?case by simp
next
  case (Suc m)
  let ?tr' = "tr @ [ListCommandInvocations_call commandId, Sleep sleepTime]"
  from Suc.prems have b: "i < timeout sdiv sleepTime"
    and e: "ListCommandInvocations clients (nat i) commandId = Inr []"
    by simp_all
  have "fst (waitForCommandInvocations_body clients commandId (nat i) tr) = Inr (Continues ())"
    by (simp add: inv_body_empty [OF e])
  from inv_loop_step [OF b this]
  have 1: "waitForCommandInvocations_loop clients commandId timeout i tr
           = waitForCommandInvocations_loop clients commandId timeout (i + 1) ?tr'"
    by (simp add: inv_body_empty [OF e])
  have "\<forall>j. i + 1 \<le> j \<and> j < i + 1 + int m \<longrightarrow>
             j < timeout sdiv sleepTime \<and> ListCommandInvocations clients (nat j) commandId = Inr []"
    using Suc.prems by simp
  from Suc.IH [OF this, of ?tr']
  have 2: "waitForCommandInvocations_loop clients commandId timeout (i + 1) ?tr'
         = waitForCommandInvocations_loop clients commandId timeout (i + 1 + int m)
             (?tr' @ concat (replicate m [ListCommandInvocations_call commandId, Sleep sleepTime]))" .
  have idx: "i + 1 + int m = i + int (Suc m)" by simp
  have trc: "?tr' @ concat (replicate m [ListCommandInvocations_call commandId, Sleep sleepTime])
      = tr @ concat (replicate (Suc m) [ListCommandInvocations_call commandId, Sleep sleepTime])"
    by simp
  from 1 2 show ?case by (simp only: idx trc)
qed

lemma inv_loop_success:
  assumes "i < timeout sdiv sleepTime"
    and "ListCommandInvocations clients (nat i) commandId = Inr invocations"
    and "invocations \<noteq> []"
    and "\<forall>v\<in>set invocations. inv_Status v \<noteq> ''Pending'' \<and> inv_Status v \<noteq> ''InProgress''
           \<and> \<not> failing (inv_Status v)"
  shows "waitForCommandInvocations_loop clients commandId timeout i tr
         = (Inr None, tr @ [ListCommandInvocations_call commandId])"
proof -
  have "filter (\<lambda>v. inv_Status v = ''Pending'' \<or> inv_Status v = ''InProgress'') invocations = []"
    using assms(4) by (simp add: filter_empty_conv)
  moreover have "\<forall>v\<in>set invocations. \<not> failing (inv_Status v)" using assms(4) by simp
  ultimately have "scanInvocations commandId invocations 0 (tr @ [ListCommandInvocations_call commandId])
      = (Inr (Continues 0), tr @ [ListCommandInvocations_call commandId])"
    using scan_no_failing [of invocations commandId 0 "tr @ [ListCommandInvocations_call commandId]"]
    by simp
  with assms(1,2,3) show ?thesis
    by (simp add: waitForCommandInvocations_loop.simps [of _ _ _ i]
        waitForCommandInvocations_body_def Let_def)
qed

lemma inv_wait_all_empty:
  assumes "\<forall>j<k. ListCommandInvocations clients j commandId = Inr []"
    and "nat (T div 10) \<le> k"
  shows "waitForCommandInvocations clients commandId (Some T) tr
         = (Inr (Some ''command invocations timed out''),
            tr @ concat (replicate (nat (T div 10))
                   [ListCommandInvocations_call commandId, Sleep sleepTime])
               @ [LogError ''Command invocations timed out.''])"
proof -
  let ?n = "nat (T sdiv sleepTime)"
  have n: "?n = nat (T div 10)" by (rule sdiv_sleepTime)
  have "\<forall>j. 0 \<le> j \<and> j < 0 + int ?n \<longrightarrow>
          j < T sdiv sleepTime \<and> ListCommandInvocations clients (nat j) commandId = Inr []"
  proof (intro allI impI)
    fix j
    assume j: "0 \<le> j \<and> j < 0 + int ?n"
    then have "nat j < k" using assms(2) n by linarith
    with assms(1) j show "j < T sdiv sleepTime \<and> ListCommandInvocations clients (nat j) commandId = Inr []"
      by (auto split: if_splits)
  qed
  from inv_loop_empties [OF this, of tr]
  have "waitForCommandInvocations_loop clients commandId T 0 tr
         = waitForCommandInvocations_loop clients commandId T (int ?n)
             (tr @ concat (replicate ?n [ListCommandInvocations_call commandId, Sleep sleepTime]))"
    by simp
  moreover have "\<not> int ?n < T sdiv sleepTime" by simp
  ultimately show ?thesis
    by (simp add: waitForCommandInvocations_def inv_loop_exhausted n)
qed

lemma inv_wait_empty_then_done:
  assumes "\<forall>j<k. ListCommandInvocations clients j commandId = Inr []"
    and "k < nat (T div 10)"
    and "ListCommandInvocations clients k commandId = Inr invocations"
    and "invocations \<noteq> []"
    and "\<forall>v\<in>set invocations. inv_Status v \<noteq> ''Pending'' \<and> inv_Status v \<noteq> ''InProgress''
           \<and> \<not> failing (inv_Status v)"
  shows "waitForCommandInvocations clients commandId (Some T) tr
         = (Inr None,
            tr @ concat (replicate k [ListCommandInvocations_call commandId, Sleep sleepTime])
               @ [ListCommandInvocations_call commandId])"
proof -
  have k: "int k < T sdiv sleepTime" using assms(2) sdiv_sleepTime [of T] by linarith
  have "\<forall>j. 0 \<le> j \<and> j < 0 + int k \<longrightarrow>
          j < T sdiv sleepTime \<and> ListCommandInvocations clients (nat j) commandId = Inr []"
  proof (intro allI impI)
    fix j
    assume j: "0 \<le> j \<and> j < 0 + int k"
    then have "nat j < k" by linarith
    with assms(1) j k show "j < T sdiv sleepTime \<and> ListCommandInvocations clients (nat j) commandId = Inr []"
      by auto
  qed
  from inv_loop_empties [OF this, of tr]
  have "waitForCommandInvocations_loop clients commandId T 0 tr
         = waitForCommandInvocations_loop clients commandId T (int k)
             (tr @ concat (replicate k [ListCommandInvocations_call commandId, Sleep sleepTime]))"
    by simp
  moreover have "ListCommandInvocations clients (nat (int k)) commandId = Inr invocations"
    using assms(3) by simp
  note inv_loop_success [OF k this assms(4,5)]
  ultimately show ?thesis by (simp add: waitForCommandInvocations_def)
qed

text \<open>
  C8. An attempt of the invocation wait that lists no invocation neither succeeds nor
  fails: it makes its query, sleeps for the interval and uses up one attempt. So an empty
  list at the last attempt ends the wait with the timeout error; a wait whose attempts
  all list nothing times out after exactly \<open>T div 10\<close> queries, each followed by one
  sleep; and a wait whose first \<open>k\<close> attempts list nothing and whose next attempt lists
  only finished invocations returns \<open>nil\<close> after \<open>k\<close> sleeps and \<open>k + 1\<close> queries.
  Every attempt that goes on, whatever its list, costs the same: one query, one sleep of
  \<open>sleepTime\<close> and one step of the counter.
\<close>

theorem empty_invocation_list_retries:
  "(ListCommandInvocations clients (nat i) commandId = Inr [] \<longrightarrow>
      waitForCommandInvocations_body clients commandId (nat i) tr
        = (Inr (Continues ()), tr @ [ListCommandInvocations_call commandId, Sleep sleepTime])
      \<and> (i < T sdiv sleepTime \<and> \<not> i + 1 < T sdiv sleepTime \<longrightarrow>
           waitForCommandInvocations_loop clients commandId T i tr
             = (Inr (Some ''command invocations timed out''),
                tr @ [ListCommandInvocations_call commandId, Sleep sleepTime,
                      LogError ''Command invocations timed out.'']))
      \<and> (i < T sdiv sleepTime \<longrightarrow>
           waitForCommandInvocations_loop clients commandId T i tr
             = waitForCommandInvocations_loop clients commandId T (i + 1)
                 (tr @ [ListCommandInvocations_call commandId, Sleep sleepTime])))
   \<and> ((\<forall>j<k. ListCommandInvocations clients j commandId = Inr []) \<longrightarrow>
        (nat (T div 10) \<le> k \<longrightarrow>
           waitForCommandInvocations clients commandId (Some T) tr
             = (Inr (Some ''command invocations timed out''),
                tr @ concat (replicate (nat (T div 10))
                       [ListCommandInvocations_call commandId, Sleep sleepTime])
                   @ [LogError ''Command invocations timed out.'']))
        \<and> (\<forall>invocations.
              k < nat (T div 10)
              \<and> ListCommandInvocations clients k commandId = Inr invocations
              \<and> invocations \<noteq> []
              \<and> (\<forall>v\<in>set invocations.
                    inv_Status v \<noteq> ''Pending'' \<and> inv_Status v \<noteq> ''InProgress''
                    \<and> \<not> failing (inv_Status v))
            \<longrightarrow> waitForCommandInvocations clients commandId (Some T) tr
                  = (Inr None,
                     tr @ concat (replicate k
                            [ListCommandInvocations_call commandId, Sleep sleepTime])
                        @ [ListCommandInvocations_call commandId])))
   \<and> (\<forall>j tr'. j < T sdiv sleepTime
          \<and> fst (waitForCommandInvocations_body clients commandId (nat j) tr')
              = Inr (Continues ())
        \<longrightarrow> waitForCommandInvocations_loop clients commandId T j tr'
              = waitForCommandInvocations_loop clients commandId T (j + 1)
                  (snd (waitForCommandInvocations_body clients commandId (nat j) tr'))
            \<and> last (snd (waitForCommandInvocations_body clients commandId (nat j) tr'))
              = Sleep sleepTime
            \<and> polls (snd (waitForCommandInvocations_body clients commandId (nat j) tr'))
              = polls tr' + 1)"
proof (intro conjI impI allI)
  assume e: "ListCommandInvocations clients (nat i) commandId = Inr []"
  show "waitForCommandInvocations_body clients commandId (nat i) tr
        = (Inr (Continues ()), tr @ [ListCommandInvocations_call commandId, Sleep sleepTime])"
    by (rule inv_body_empty [OF e])
next
  assume e: "ListCommandInvocations clients (nat i) commandId = Inr []"
    and b: "i < T sdiv sleepTime"
  have "fst (waitForCommandInvocations_body clients commandId (nat i) tr) = Inr (Continues ())"
    by (simp add: inv_body_empty [OF e])
  from inv_loop_step [OF b this]
  show "waitForCommandInvocations_loop clients commandId T i tr
             = waitForCommandInvocations_loop clients commandId T (i + 1)
                 (tr @ [ListCommandInvocations_call commandId, Sleep sleepTime])"
    by (simp add: inv_body_empty [OF e])
next
  assume e: "ListCommandInvocations clients (nat i) commandId = Inr []"
    and b: "i < T sdiv sleepTime \<and> \<not> i + 1 < T sdiv sleepTime"
  have "fst (waitForCommandInvocations_body clients commandId (nat i) tr) = Inr (Continues ())"
    by (simp add: inv_body_empty [OF e])
  with b have "waitForCommandInvocations_loop clients commandId T i tr
             = waitForCommandInvocations_loop clients commandId T (i + 1)
                 (tr @ [ListCommandInvocations_call commandId, Sleep sleepTime])"
    using inv_loop_step [of i T clients commandId tr] by (simp add: inv_body_empty [OF e])
  with b show "waitForCommandInvocations_loop clients commandId T i tr
             = (Inr (Some ''command invocations timed out''),
                tr @ [ListCommandInvocations_call commandId, Sleep sleepTime,
                      LogError ''Command invocations timed out.''])"
    by (simp add: inv_loop_exhausted)
next
  assume "\<forall>j<k. ListCommandInvocations clients j commandId = Inr []" "nat (T div 10) \<le> k"
  then show "waitForCommandInvocations clients commandId (Some T) tr
             = (Inr (Some ''command invocations timed out''),
                tr @ concat (replicate (nat (T div 10))
                       [ListCommandInvocations_call commandId, Sleep sleepTime])
                   @ [LogError ''Command invocations timed out.''])"
    by (rule inv_wait_all_empty)
next
  fix invocations
  assume "\<forall>j<k. ListCommandInvocations clients j commandId = Inr []"
    and "k < nat (T div 10)
              \<and> ListCommandInvocations clients k commandId = Inr invocations
              \<and> invocations \<noteq> []
              \<and> (\<forall>v\<in>set invocations.
                    inv_Status v \<noteq> ''Pending'' \<and> inv_Status v \<noteq> ''InProgress''
                    \<and> \<not> failing (inv_Status v))"
  then show "waitForCommandInvocations clients commandId (Some T) tr
                  = (Inr None,
                     tr @ concat (replicate k
                            [ListCommandInvocations_call commandId, Sleep sleepTime])
                        @ [ListCommandInvocations_call commandId])"
    using inv_wait_empty_then_done [of k clients commandId T invocations tr] by blast
next
  fix j tr'
  assume a: "j < T sdiv sleepTime
          \<and> fst (waitForCommandInvocations_body clients commandId (nat j) tr')
              = Inr (Continues ())"
  then show "waitForCommandInvocations_loop clients commandId T j tr'
              = waitForCommandInvocations_loop clients commandId T (j + 1)
                  (snd (waitForCommandInvocations_body clients commandId (nat j) tr'))"
    using inv_loop_step by blast
  from a show "last (snd (waitForCommandInvocations_body clients commandId (nat j) tr'))
              = Sleep sleepTime"
    using inv_body_last_sleep by blast
  show "polls (snd (waitForCommandInvocations_body clients commandId (nat j) tr')) = polls tr' + 1"
    by (rule inv_body_polls)
qed

theorem empty_invocation_list_retries_witness:
  "waitForCommandInvocations_body sample_clients ''cmd-1'' 0 []
     = (Inr (Continues ()), [ListCommandInvocations_call ''cmd-1'', Sleep 10])
   \<and> waitForCommandInvocations sample_clients ''cmd-1'' (Some 10) []
     = (Inr (Some ''command invocations timed out''),
        [ListCommandInvocations_call ''cmd-1'', Sleep 10,
         LogError ''Command invocations timed out.''])
   \<and> waitForCommandInvocations_loop idle_clients ''cmd-1'' 600 59 []
     = (Inr (Some ''command invocations timed out''),
        [ListCommandInvocations_call ''cmd-1'', Sleep 10,
         LogError ''Command invocations timed out.''])
   \<and> waitForCommandInvocations idle_clients ''cmd-1'' (Some 600) []
     = (Inr (Some ''command invocations timed out''),
        concat (replicate 60 [ListCommandInvocations_call ''cmd-1'', Sleep 10])
          @ [LogError ''Command invocations timed out.''])
   \<and> waitForCommandInvocations
        (sample_clients\<lparr>ListCommandInvocations := (\<lambda>i commandId.
           Inr (if i < 2 then []
                else [\<lparr>inv_InstanceId = Some ''i-1'', inv_Status = ''Success''\<rparr>]))\<rparr>)
        ''cmd-1'' (Some 600) []
     = (Inr None,
        [ListCommandInvocations_call ''cmd-1'', Sleep 10,
         ListCommandInvocations_call ''cmd-1'', Sleep 10,
         ListCommandInvocations_call ''cmd-1''])"
proof -
  let ?late = "sample_clients\<lparr>ListCommandInvocations := (\<lambda>i commandId.
           Inr (if i < 2 then []
                else [\<lparr>inv_InstanceId = Some ''i-1'', inv_Status = ''Success''\<rparr>]))\<rparr>"
  have s0: "ListCommandInvocations sample_clients (nat 0) ''cmd-1'' = Inr []"
    by (simp add: sample_clients_def)
  have s1: "\<forall>j<1. ListCommandInvocations sample_clients j ''cmd-1'' = Inr []"
    by (simp add: sample_clients_def)
  have i59: "ListCommandInvocations idle_clients (nat 59) ''cmd-1'' = Inr []"
    by (simp add: idle_clients_def)
  have last: "(59::int) < 600 sdiv sleepTime \<and> \<not> (59::int) + 1 < 600 sdiv sleepTime"
    by (simp add: sleepTime_def signed_divide_int_def)
  have i60: "\<forall>j<60. ListCommandInvocations idle_clients j ''cmd-1'' = Inr []"
    by (simp add: idle_clients_def)
  have l2: "\<forall>j<2. ListCommandInvocations ?late j ''cmd-1'' = Inr []"
    by simp
  have l3: "(2::nat) < nat (600 div 10)
      \<and> ListCommandInvocations ?late 2 ''cmd-1''
          = Inr [\<lparr>inv_InstanceId = Some ''i-1'', inv_Status = ''Success''\<rparr>]
      \<and> [\<lparr>inv_InstanceId = Some ''i-1'', inv_Status = ''Success''\<rparr>] \<noteq> []
      \<and> (\<forall>v\<in>set [\<lparr>inv_InstanceId = Some ''i-1'', inv_Status = ''Success''\<rparr>].
            inv_Status v \<noteq> ''Pending'' \<and> inv_Status v \<noteq> ''InProgress''
            \<and> \<not> failing (inv_Status v))"
    by (simp add: failing_def)
  have a: "waitForCommandInvocations_body sample_clients ''cmd-1'' 0 []
     = (Inr (Continues ()), [ListCommandInvocations_call ''cmd-1'', Sleep 10])"
    using empty_invocation_list_retries [of sample_clients 0 "''cmd-1''" "[]" 10 0] s0
    by (simp add: sleepTime_def)
  have b: "waitForCommandInvocations sample_clients ''cmd-1'' (Some 10) []
     = (Inr (Some ''command invocations timed out''),
        [ListCommandInvocations_call ''cmd-1'', Sleep 10,
         LogError ''Command invocations timed out.''])"
    using empty_invocation_list_retries [of sample_clients 0 "''cmd-1''" "[]" 10 1] s1
    by (simp add: sleepTime_def)
  have c: "waitForCommandInvocations_loop idle_clients ''cmd-1'' 600 59 []
     = (Inr (Some ''command invocations timed out''),
        [ListCommandInvocations_call ''cmd-1'', Sleep 10,
         LogError ''Command invocations timed out.''])"
    using empty_invocation_list_retries [of idle_clients 59 "''cmd-1''" "[]" 600 0] i59 last
    by (simp add: sleepTime_def)
  have d: "waitForCommandInvocations idle_clients ''cmd-1'' (Some 600) []
     = (Inr (Some ''command invocations timed out''),
        concat (replicate 60 [ListCommandInvocations_call ''cmd-1'', Sleep 10])
          @ [LogError ''Command invocations timed out.''])"
    using empty_invocation_list_retries [of idle_clients 0 "''cmd-1''" "[]" 600 60] i60
    by (simp add: sleepTime_def)
  have e: "waitForCommandInvocations ?late ''cmd-1'' (Some 600) []
     = (Inr None,
        [ListCommandInvocations_call ''cmd-1'', Sleep 10,
         ListCommandInvocations_call ''cmd-1'', Sleep 10,
         ListCommandInvocations_call ''cmd-1''])"
  proof -
    from empty_invocation_list_retries [of ?late 0 "''cmd-1''" "[]" 600 2] l2
    have "\<forall>invocations.
              2 < nat (600 div 10)
              \<and> ListCommandInvocations ?late 2 ''cmd-1'' = Inr invocations
              \<and> invocations \<noteq> []
              \<and> (\<forall>v\<in>set invocations.
                    inv_Status v \<noteq> ''Pending'' \<and> inv_Status v \<noteq> ''InProgress''
                    \<and> \<not> failing (inv_Status v))
            \<longrightarrow> waitForCommandInvocations ?late ''cmd-1'' (Some 600) []
                  = (Inr None,
                     [] @ concat (replicate 2
                            [ListCommandInvocations_call ''cmd-1'', Sleep sleepTime])
                        @ [ListCommandInvocations_call ''cmd-1''])"
      by blast
    with l3 have "waitForCommandInvocations ?late ''cmd-1'' (Some 600) []
                  = (Inr None,
                     [] @ concat (replicate 2
                            [ListCommandInvocations_call ''cmd-1'', Sleep sleepTime])
                        @ [ListCommandInvocations_call ''cmd-1''])"
      by blast
    then show ?thesis by (simp add: sleepTime_def numeral_2_eq_2)
  qed
  from a b c d e show ?thesis by simp
qed

subsection \<open>Filters, output and the run as a whole\<close>

lemma targetFilters_acc:
  "targetFilters targets ec2Filters ssmFilters =
     (if \<exists>t\<in>set targets. target_Key t = None then Inl NilDereference
      else Inr (ec2Filters @
                  map (\<lambda>t. \<lparr>filter_Name =
                               (case target_Key t of
                                  None \<Rightarrow> None
                                | Some key \<Rightarrow>
                                    if EqualFold key ssmTargetInstanceIds
                                    then Some ec2FilterInstanceId else Some key),
                             filter_Values = target_Values t\<rparr>) targets,
                ssmFilters @
                  map (\<lambda>t. \<lparr>isf_Key = target_Key t, isf_Values = target_Values t\<rparr>) targets))"
proof (induction targets arbitrary: ec2Filters ssmFilters)
  case Nil
  then show ?case by simp
next
  case (Cons t targets)
  show ?case
  proof (cases "target_Key t")
    case None
    then show ?thesis by simp
  next
    case (Some key)
    then show ?thesis by (simp add: Cons.IH Let_def)
  qed
qed

text \<open>
  C6, as the code has it. Unless a target has no key (the dereference panics), every
  target gives one compute filter and one agent filter with the target's values. The
  agent filter keeps the key as written. The compute filter is named \<open>instance-id\<close>
  when the key equals \<open>InstanceIds\<close> under \<open>strings.EqualFold\<close>, that is up to
  case, and keeps the key otherwise. The state filter on pending and running comes last
  in the compute filters.
\<close>

theorem filters_by_case_folded_key:
  "RunCommand_filters ssmTargets =
     (if \<exists>t\<in>set ssmTargets. target_Key t = None then Inl NilDereference
      else Inr (map (\<lambda>t. \<lparr>filter_Name =
                               (case target_Key t of
                                  None \<Rightarrow> None
                                | Some key \<Rightarrow>
                                    if EqualFold key ssmTargetInstanceIds
                                    then Some ec2FilterInstanceId else Some key),
                             filter_Values = target_Values t\<rparr>) ssmTargets
                  @ [\<lparr>filter_Name = Some ec2FilterInstanceStateName,
                       filter_Values = [''pending'', ''running'']\<rparr>],
                map (\<lambda>t. \<lparr>isf_Key = target_Key t, isf_Values = target_Values t\<rparr>) ssmTargets))
   \<and> EqualFold ssmTargetInstanceIds ssmTargetInstanceIds
   \<and> ssmTargetInstanceIds = ''InstanceIds''
   \<and> ec2FilterInstanceId = ''instance-id''
   \<and> ec2FilterInstanceStateName = ''instance-state-name''"
proof (intro conjI)
  show "EqualFold ssmTargetInstanceIds ssmTargetInstanceIds"
    by (simp add: ssmTargetInstanceIds_def fold_ascii_def)
qed (simp_all add: RunCommand_filters_def targetFilters_acc ssmTargetInstanceIds_def
      ec2FilterInstanceId_def ec2FilterInstanceStateName_def)

theorem filters_by_case_folded_key_witness:
  "RunCommand_filters [\<lparr>target_Key = Some ''InstanceIds'', target_Values = [''i-1'', ''i-2'']\<rparr>,
                       \<lparr>target_Key = Some ''tag:Role'', target_Values = [''web'']\<rparr>]
     = Inr ([\<lparr>filter_Name = Some ''instance-id'', filter_Values = [''i-1'', ''i-2'']\<rparr>,
             \<lparr>filter_Name = Some ''tag:Role'', filter_Values = [''web'']\<rparr>,
             \<lparr>filter_Name = Some ''instance-state-name'',
                filter_Values = [''pending'', ''running'']\<rparr>],
            [\<lparr>isf_Key = Some ''InstanceIds'', isf_Values = [''i-1'', ''i-2'']\<rparr>,
             \<lparr>isf_Key = Some ''tag:Role'', isf_Values = [''web'']\<rparr>])
   \<and> RunCommand_filters [\<lparr>target_Key = Some ''InstanceIds'', target_Values = [''i-1'', ''i-2'']\<rparr>]
     = Inr ([\<lparr>filter_Name = Some ''instance-id'', filter_Values = [''i-1'', ''i-2'']\<rparr>,
             \<lparr>filter_Name = Some ''instance-state-name'',
                filter_Values = [''pending'', ''running'']\<rparr>],
            [\<lparr>isf_Key = Some ''InstanceIds'', isf_Values = [''i-1'', ''i-2'']\<rparr>])"
proof -
  have "RunCommand_filters [\<lparr>target_Key = Some ''InstanceIds'', target_Values = [''i-1'', ''i-2'']\<rparr>,
                       \<lparr>target_Key = Some ''tag:Role'', target_Values = [''web'']\<rparr>]
     = Inr ([\<lparr>filter_Name = Some ''instance-id'', filter_Values = [''i-1'', ''i-2'']\<rparr>,
             \<lparr>filter_Name = Some ''tag:Role'', filter_Values = [''web'']\<rparr>,
             \<lparr>filter_Name = Some ''instance-state-name'',
                filter_Values = [''pending'', ''running'']\<rparr>],
            [\<lparr>isf_Key = Some ''InstanceIds'', isf_Values = [''i-1'', ''i-2'']\<rparr>,
             \<lparr>isf_Key = Some ''tag:Role'', isf_Values = [''web'']\<rparr>])"
    using filters_by_case_folded_key
      [of "[\<lparr>target_Key = Some ''InstanceIds'', target_Values = [''i-1'', ''i-2'']\<rparr>,
            \<lparr>target_Key = Some ''tag:Role'', target_Values = [''web'']\<rparr>]", THEN conjunct1]
    by (simp add: ssmTargetInstanceIds_def fold_ascii_def ec2FilterInstanceId_def
        ec2FilterInstanceStateName_def)
  moreover have "RunCommand_filters [\<lparr>target_Key = Some ''InstanceIds'', target_Values = [''i-1'', ''i-2'']\<rparr>]
     = Inr ([\<lparr>filter_Name = Some ''instance-id'', filter_Values = [''i-1'', ''i-2'']\<rparr>,
             \<lparr>filter_Name = Some ''instance-state-name'',
                filter_Values = [''pending'', ''running'']\<rparr>],
            [\<lparr>isf_Key = Some ''InstanceIds'', isf_Values = [''i-1'', ''i-2'']\<rparr>])"
    using filters_by_case_folded_key
      [of "[\<lparr>target_Key = Some ''InstanceIds'', target_Values = [''i-1'', ''i-2'']\<rparr>]",
       THEN conjunct1]
    by (simp add: ssmTargetInstanceIds_def fold_ascii_def ec2FilterInstanceId_def
        ec2FilterInstanceStateName_def)
  ultimately show ?thesis by simp
qed

text \<open>
  C6, as the specification states it, fails: the key \<open>instanceids\<close> is not the
  reserved key \<open>InstanceIds\<close>, yet it does not reach the compute filters unchanged.
\<close>

theorem lower_case_key_is_renamed:
  "''instanceids'' \<noteq> ssmTargetInstanceIds
   \<and> RunCommand_filters [\<lparr>target_Key = Some ''instanceids'', target_Values = [''i-1'']\<rparr>]
     = Inr ([\<lparr>filter_Name = Some ''instance-id'', filter_Values = [''i-1'']\<rparr>,
             \<lparr>filter_Name = Some ''instance-state-name'',
                filter_Values = [''pending'', ''running'']\<rparr>],
            [\<lparr>isf_Key = Some ''instanceids'', isf_Values = [''i-1'']\<rparr>])"
  by (simp add: RunCommand_filters_def ssmTargetInstanceIds_def fold_ascii_def
      ec2FilterInstanceId_def ec2FilterInstanceStateName_def)

text \<open>
  C9. \<open>GetCommand\<close> makes one query, by the command identifier. It returns the first
  record found with no error, the zero command with no error when no record is found,
  and the zero command with the error when the query fails.
\<close>

theorem GetCommand_result:
  "snd (GetCommand clients commandId tr) = tr @ [ListCommands_call commandId]
   \<and> (ListCommands clients commandId = Inr [] \<longrightarrow>
        fst (GetCommand clients commandId tr) = (Command_zero, None))
   \<and> (\<forall>command rest. ListCommands clients commandId = Inr (command # rest) \<longrightarrow>
        fst (GetCommand clients commandId tr) = (command, None))
   \<and> (\<forall>err. ListCommands clients commandId = Inl err \<longrightarrow>
        fst (GetCommand clients commandId tr) = (Command_zero, Some err))
   \<and> CommandId Command_zero = None \<and> cmd_DocumentName Command_zero = None
   \<and> cmd_Status Command_zero = []"
  by (auto simp: GetCommand_def Command_zero_def split: sum.splits)

theorem GetCommand_result_witness:
  "GetCommand sample_clients ''cmd-1'' [] = ((Command_zero, None), [ListCommands_call ''cmd-1''])
   \<and> GetCommand
        (sample_clients\<lparr>ListCommands := (\<lambda>commandId.
           Inr [\<lparr>CommandId = Some commandId, cmd_DocumentName = Some ''AWS-RunShellScript'',
                  cmd_Status = ''Success''\<rparr>])\<rparr>) ''cmd-1'' []
      = ((\<lparr>CommandId = Some ''cmd-1'', cmd_DocumentName = Some ''AWS-RunShellScript'',
            cmd_Status = ''Success''\<rparr>, None), [ListCommands_call ''cmd-1''])
   \<and> GetCommand (sample_clients\<lparr>ListCommands := (\<lambda>commandId. Inl ''Throttled'')\<rparr>) ''cmd-1'' []
      = ((Command_zero, Some ''Throttled''), [ListCommands_call ''cmd-1''])"
proof -
  have "GetCommand sample_clients ''cmd-1'' [] = ((Command_zero, None), [ListCommands_call ''cmd-1''])"
    using GetCommand_result [of sample_clients "''cmd-1''" "[]"]
    by (simp add: sample_clients_def prod_eq_iff)
  moreover have "GetCommand
        (sample_clients\<lparr>ListCommands := (\<lambda>commandId.
           Inr [\<lparr>CommandId = Some commandId, cmd_DocumentName = Some ''AWS-RunShellScript'',
                  cmd_Status = ''Success''\<rparr>])\<rparr>) ''cmd-1'' []
      = ((\<lparr>CommandId = Some ''cmd-1'', cmd_DocumentName = Some ''AWS-RunShellScript'',
            cmd_Status = ''Success''\<rparr>, None), [ListCommands_call ''cmd-1''])"
    using GetCommand_result [of "sample_clients\<lparr>ListCommands := (\<lambda>commandId.
           Inr [\<lparr>CommandId = Some commandId, cmd_DocumentName = Some ''AWS-RunShellScript'',
                  cmd_Status = ''Success''\<rparr>])\<rparr>" "''cmd-1''" "[]"]
    by (simp add: prod_eq_iff)
  moreover have "GetCommand (sample_clients\<lparr>ListCommands := (\<lambda>commandId. Inl ''Throttled'')\<rparr>) ''cmd-1'' []
      = ((Command_zero, Some ''Throttled''), [ListCommands_call ''cmd-1''])"
    using GetCommand_result [of "sample_clients\<lparr>ListCommands := (\<lambda>commandId. Inl ''Throttled'')\<rparr>" "''cmd-1''" "[]"]
    by (simp add: prod_eq_iff)
  ultimately show ?thesis by simp
qed

lemma printObjects_extends:
  "\<exists>evs. snd (printObjects clients region s3Bucket objects tr) = tr @ evs"
proof (induction objects arbitrary: tr)
  case Nil
  then show ?case by simp
next
  case (Cons key rest)
  let ?tr1 = "tr @ [GetObject_call region s3Bucket (obj_Key key)]"
  have step: "\<And>tr'. \<exists>evs. tr' = tr @ evs \<Longrightarrow>
      \<exists>evs. snd (printObjects clients region s3Bucket rest tr') = tr @ evs"
  proof -
    fix tr'
    assume "\<exists>evs. tr' = tr @ evs"
    then obtain evs where e: "tr' = tr @ evs" by blast
    from Cons.IH [of tr'] obtain evs' where
      "snd (printObjects clients region s3Bucket rest tr') = tr' @ evs'" by blast
    with e show "\<exists>evs. snd (printObjects clients region s3Bucket rest tr') = tr @ evs" by simp
  qed
  show ?case
  proof (cases "GetObject clients region s3Bucket (obj_Key key)")
    case (Inl err)
    have "\<exists>evs. ?tr1 @ [LogError err] = tr @ evs" by simp
    from step [OF this] Inl show ?thesis by (simp add: Let_def)
  next
    case (Inr object)
    show ?thesis
    proof (cases "get_Body object")
      case (Inl err)
      have "\<exists>evs. ?tr1 = tr @ evs" by simp
      from step [OF this] Inl Inr show ?thesis by (simp add: Let_def)
    next
      case msg: (Inr msg)
      show ?thesis
      proof (cases "obj_Key key")
        case None
        with Inr msg show ?thesis by (simp add: Let_def)
      next
        case (Some k)
        have "\<exists>evs. ?tr1 @ [Info (CHR 0x0A # ''*** '' @ k @ '' ***'')] @ map Info (logPieces msg)
                 = tr @ evs" by simp
        from step [OF this] Inr msg Some show ?thesis by (simp add: Let_def)
      qed
    qed
  qed
qed

lemma printCommandOutput_lists:
  assumes "s3Bucket \<noteq> None" "s3Bucket \<noteq> Some []"
    and "GetBucketLocation clients s3Bucket = Inr location"
    and "LoadDefaultConfig clients = Inr cfg"
  shows "ListObjectsV2_call location s3Bucket 1000 (keyPrefix prefix commandId)
           \<in> set (snd (printCommandOutput clients prefix commandId s3Bucket tr))"
proof (cases "ListObjectsV2 clients location s3Bucket 1000 (keyPrefix prefix commandId)")
  case (Inl err)
  from assms(1,2) obtain b where "s3Bucket = Some b" "b \<noteq> []" by (cases s3Bucket) auto
  with assms(3,4) Inl show ?thesis by (simp add: printCommandOutput_def Let_def)
next
  case (Inr contents)
  from assms(1,2) obtain b where nb: "s3Bucket = Some b" "b \<noteq> []" by (cases s3Bucket) auto
  let ?tr2 = "tr @ [GetBucketLocation_call s3Bucket, LoadDefaultConfig_call,
                    ListObjectsV2_call location s3Bucket 1000 (keyPrefix prefix commandId)]"
  obtain evs where "snd (printObjects clients location s3Bucket contents ?tr2) = ?tr2 @ evs"
    using printObjects_extends by blast
  then have "ListObjectsV2_call location s3Bucket 1000 (keyPrefix prefix commandId)
           \<in> set (snd (printObjects clients location s3Bucket contents ?tr2))"
    by simp
  with nb assms(3,4) Inr show ?thesis
    by (cases "printObjects clients location s3Bucket contents ?tr2")
       (auto simp: printCommandOutput_def Let_def split: sum.splits)
qed

lemma printCommandOutput_extends:
  "\<exists>e evs. snd (printCommandOutput clients prefix commandId s3Bucket tr) = tr @ e # evs"
proof (cases "s3Bucket = None \<or> s3Bucket = Some []")
  case True
  then show ?thesis by (auto simp: printCommandOutput_def)
next
  case False
  show ?thesis
  proof (cases "GetBucketLocation clients s3Bucket")
    case (Inl err)
    with False show ?thesis by (simp add: printCommandOutput_def)
  next
    case location: (Inr location)
    show ?thesis
    proof (cases "LoadDefaultConfig clients")
      case (Inl err)
      with False location show ?thesis by (simp add: printCommandOutput_def)
    next
      case cfg: (Inr cfg)
      let ?tr2 = "tr @ [GetBucketLocation_call s3Bucket, LoadDefaultConfig_call,
                    ListObjectsV2_call location s3Bucket 1000 (keyPrefix prefix commandId)]"
      show ?thesis
      proof (cases "ListObjectsV2 clients location s3Bucket 1000 (keyPrefix prefix commandId)")
        case (Inl err)
        with False location cfg show ?thesis by (simp add: printCommandOutput_def Let_def)
      next
        case (Inr contents)
        obtain evs where "snd (printObjects clients location s3Bucket contents ?tr2) = ?tr2 @ evs"
          using printObjects_extends by blast
        with False location cfg Inr show ?thesis
          by (cases "printObjects clients location s3Bucket contents ?tr2")
             (auto simp: printCommandOutput_def Let_def split: sum.splits)
      qed
    qed
  qed
qed

text \<open>
  C10. Only a nil prefix gives the bare command identifier as the prefix of the listed
  keys. A prefix that is present gives the prefix, a slash and the identifier, so the
  empty string gives a key with a leading slash. Once the bucket's region and the
  configuration are there, this is the prefix of the listing request.
\<close>

theorem keyPrefix_nil_or_present:
  "keyPrefix None commandId = commandId
   \<and> keyPrefix (Some p) commandId = p @ ''/'' @ commandId
   \<and> keyPrefix (Some []) commandId = CHR ''/'' # commandId
   \<and> keyPrefix (Some []) commandId \<noteq> keyPrefix None commandId
   \<and> (keyPrefix prefix commandId = commandId \<longleftrightarrow> prefix = None)
   \<and> (s3Bucket \<noteq> None \<and> s3Bucket \<noteq> Some []
        \<and> GetBucketLocation clients s3Bucket = Inr location
        \<and> LoadDefaultConfig clients = Inr cfg
      \<longrightarrow> ListObjectsV2_call location s3Bucket 1000 (keyPrefix prefix commandId)
            \<in> set (snd (printCommandOutput clients prefix commandId s3Bucket tr)))"
proof (intro conjI impI)
  show "keyPrefix prefix commandId = commandId \<longleftrightarrow> prefix = None"
  proof (cases prefix)
    case None
    then show ?thesis by (simp add: keyPrefix_def)
  next
    case (Some q)
    have "length (q @ ''/'' @ commandId) \<noteq> length commandId" by simp
    then have "q @ ''/'' @ commandId \<noteq> commandId" by metis
    with Some show ?thesis by (simp add: keyPrefix_def)
  qed
next
  assume "s3Bucket \<noteq> None \<and> s3Bucket \<noteq> Some []
        \<and> GetBucketLocation clients s3Bucket = Inr location
        \<and> LoadDefaultConfig clients = Inr cfg"
  then show "ListObjectsV2_call location s3Bucket 1000 (keyPrefix prefix commandId)
            \<in> set (snd (printCommandOutput clients prefix commandId s3Bucket tr))"
    using printCommandOutput_lists by blast
qed (simp_all add: keyPrefix_def)

theorem keyPrefix_nil_or_present_witness:
  "ListObjectsV2_call ''eu-west-1'' (Some ''logs'') 1000 ''/cmd-1''
     \<in> set (snd (printCommandOutput
                   (sample_clients\<lparr>GetBucketLocation := (\<lambda>bucket. Inr ''eu-west-1'')\<rparr>)
                   (Some []) ''cmd-1'' (Some ''logs'') []))
   \<and> ListObjectsV2_call ''eu-west-1'' (Some ''logs'') 1000 ''cmd-1''
     \<in> set (snd (printCommandOutput
                   (sample_clients\<lparr>GetBucketLocation := (\<lambda>bucket. Inr ''eu-west-1'')\<rparr>)
                   None ''cmd-1'' (Some ''logs'') []))"
proof -
  let ?c = "sample_clients\<lparr>GetBucketLocation := (\<lambda>bucket. Inr ''eu-west-1'')\<rparr>"
  have h: "Some ''logs'' \<noteq> None \<and> Some ''logs'' \<noteq> Some []
        \<and> GetBucketLocation ?c (Some ''logs'') = Inr ''eu-west-1''
        \<and> LoadDefaultConfig ?c = Inr ()"
    by (simp add: sample_clients_def)
  note inst = keyPrefix_nil_or_present
    [of "''cmd-1''" "[]" _ "Some ''logs''" ?c "''eu-west-1''" "()" "[]"]
  have "ListObjectsV2_call ''eu-west-1'' (Some ''logs'') 1000 (keyPrefix (Some []) ''cmd-1'')
     \<in> set (snd (printCommandOutput ?c (Some []) ''cmd-1'' (Some ''logs'') []))"
    using inst [of "Some []"] h by blast
  moreover have "ListObjectsV2_call ''eu-west-1'' (Some ''logs'') 1000 (keyPrefix None ''cmd-1'')
     \<in> set (snd (printCommandOutput ?c None ''cmd-1'' (Some ''logs'') []))"
    using inst [of None] h by blast
  moreover have "keyPrefix (Some []) ''cmd-1'' = ''/cmd-1''" "keyPrefix None ''cmd-1'' = ''cmd-1''"
    using inst [of None] by simp_all
  ultimately show ?thesis by simp
qed

text \<open>
  C7. Once the command is sent and the invocation wait has returned, with an error or
  without, \<open>printCommandOutput\<close> runs from the trace the wait left and adds at least
  one event. If the wait returned an error, \<open>RunCommand\<close> returns that error with the
  zero command; otherwise it returns what \<open>GetCommand\<close> returns. The error that
  \<open>printCommandOutput\<close> returned appears nowhere in the result; only a panic inside it
  ends the run, as any panic does.
\<close>

theorem output_printed_whatever_the_wait_returns:
  assumes "RunCommand_filters ssmTargets = Inr (ec2Filters, ssmFilters)"
    and "waitForTargetInstances clients ec2Filters ssmFilters waitTimeout tr = (None, tr1)"
    and "SendCommand clients
           (RunCommand_input documentName parameters ssmTargets comment s3Bucket s3KeyPrefix)
         = Inr output"
    and "out_Command output = Some command"
    and "CommandId command = Some commandId"
    and "waitForCommandInvocations clients commandId executionTimeout
           (tr1 @ [SendCommand_call
              (RunCommand_input documentName parameters ssmTargets comment s3Bucket s3KeyPrefix)])
         = (Inr err, tr3)"
    and "printCommandOutput clients s3KeyPrefix commandId s3Bucket tr3 = (printed, tr4)"
  shows "RunCommand clients documentName parameters ssmTargets executionTimeout comment s3Bucket
           s3KeyPrefix tr =
           (case printed of
              Inl p \<Rightarrow> (Inl p, tr4)
            | Inr printError \<Rightarrow>
                (case err of
                   Some e \<Rightarrow> (Inr (Command_zero, Some e), tr4 @ [LogError e])
                 | None \<Rightarrow>
                     (Inr (fst (GetCommand clients commandId tr4)),
                      snd (GetCommand clients commandId tr4))))
         \<and> (\<exists>e evs. tr4 = tr3 @ e # evs)"
proof -
  have "\<exists>e evs. tr4 = tr3 @ e # evs"
    using printCommandOutput_extends [of clients s3KeyPrefix commandId s3Bucket tr3] assms(7)
    by simp
  moreover have "RunCommand clients documentName parameters ssmTargets executionTimeout comment
           s3Bucket s3KeyPrefix tr =
           (case printed of
              Inl p \<Rightarrow> (Inl p, tr4)
            | Inr printError \<Rightarrow>
                (case err of
                   Some e \<Rightarrow> (Inr (Command_zero, Some e), tr4 @ [LogError e])
                 | None \<Rightarrow>
                     (Inr (fst (GetCommand clients commandId tr4)),
                      snd (GetCommand clients commandId tr4))))"
    using assms
    by (simp add: RunCommand_def Let_def split: sum.splits option.splits prod.splits)
  ultimately show ?thesis by simp
qed

lemma sample_invocations:
  "fst (waitForCommandInvocations sample_clients ''cmd-1'' (Some 600) tr)
     = Inr (Some ''command invocation failed on i-2 instance'')"
proof -
  have low: "ToLower ''Failed'' = ''failed''" by code_simp
  show ?thesis
    by (simp add: waitForCommandInvocations_def waitForCommandInvocations_loop.simps
        waitForCommandInvocations_body_def sample_clients_def sleepTime_def
        signed_divide_int_def failing_def low Let_def)
qed

theorem output_printed_whatever_the_wait_returns_witness:
  "fst (RunCommand sample_clients (Some ''AWS-RunShellScript'') Map.empty
          [\<lparr>target_Key = Some ''InstanceIds'', target_Values = [''i-1'', ''i-2'']\<rparr>]
          (Some 600) None (Some ''logs'') None [])
     = Inr (Command_zero, Some ''command invocation failed on i-2 instance'')
   \<and> GetBucketLocation_call (Some ''logs'')
       \<in> set (snd (RunCommand sample_clients (Some ''AWS-RunShellScript'') Map.empty
          [\<lparr>target_Key = Some ''InstanceIds'', target_Values = [''i-1'', ''i-2'']\<rparr>]
          (Some 600) None (Some ''logs'') None []))
   \<and> LogError ''AccessDenied''
       \<in> set (snd (RunCommand sample_clients (Some ''AWS-RunShellScript'') Map.empty
          [\<lparr>target_Key = Some ''InstanceIds'', target_Values = [''i-1'', ''i-2'']\<rparr>]
          (Some 600) None (Some ''logs'') None []))"
proof -
  let ?targets = "[\<lparr>target_Key = Some ''InstanceIds'', target_Values = [''i-1'', ''i-2'']\<rparr>]"
  let ?ef = "[\<lparr>filter_Name = Some ''instance-id'', filter_Values = [''i-1'', ''i-2'']\<rparr>,
              \<lparr>filter_Name = Some ''instance-state-name'',
                 filter_Values = [''pending'', ''running'']\<rparr>]"
  let ?sf = "[\<lparr>isf_Key = Some ''InstanceIds'', isf_Values = [''i-1'', ''i-2'']\<rparr>]"
  let ?input = "RunCommand_input (Some ''AWS-RunShellScript'') Map.empty ?targets None
                  (Some ''logs'') None"
  let ?command = "\<lparr>CommandId = Some ''cmd-1'', cmd_DocumentName = Some ''AWS-RunShellScript'',
                    cmd_Status = ''Pending''\<rparr>"
  let ?tr1 = "snd (waitForTargetInstances sample_clients ?ef ?sf waitTimeout [])"
  let ?w = "waitForCommandInvocations sample_clients ''cmd-1'' (Some 600)
              (?tr1 @ [SendCommand_call ?input])"
  let ?p = "printCommandOutput sample_clients None ''cmd-1'' (Some ''logs'') (snd ?w)"
  have 1: "RunCommand_filters ?targets = Inr (?ef, ?sf)"
    by (simp add: RunCommand_filters_def ssmTargetInstanceIds_def fold_ascii_def
        ec2FilterInstanceId_def ec2FilterInstanceStateName_def)
  have 2: "waitForTargetInstances sample_clients ?ef ?sf waitTimeout [] = (None, ?tr1)"
    using sample_wait [of ?ef ?sf "[]"] by (simp add: prod_eq_iff)
  have 3: "SendCommand sample_clients ?input = Inr \<lparr>out_Command = Some ?command\<rparr>"
    by (simp add: sample_clients_def RunCommand_input_def)
  have 4: "out_Command \<lparr>out_Command = Some ?command\<rparr> = Some ?command" by simp
  have 5: "CommandId ?command = Some ''cmd-1''" by simp
  have 6: "?w = (Inr (Some ''command invocation failed on i-2 instance''), snd ?w)"
    using sample_invocations [of "?tr1 @ [SendCommand_call ?input]"] by (simp add: prod_eq_iff)
  have p: "?p = (Inr (Some ''AccessDenied''),
                 snd ?w @ [GetBucketLocation_call (Some ''logs''), LogError ''AccessDenied''])"
    by (simp add: printCommandOutput_def sample_clients_def)
  from output_printed_whatever_the_wait_returns [OF 1 2 3 4 5 6 p]
  have "RunCommand sample_clients (Some ''AWS-RunShellScript'') Map.empty ?targets (Some 600) None
          (Some ''logs'') None []
        = (Inr (Command_zero, Some ''command invocation failed on i-2 instance''),
           (snd ?w @ [GetBucketLocation_call (Some ''logs''), LogError ''AccessDenied''])
             @ [LogError ''command invocation failed on i-2 instance''])"
    by simp
  then show ?thesis by simp
qed

end
